theory Spec2Isabelle
  imports Main
begin

section \<open>Time, durations and error values\<close>

text \<open>
  Go's \<open>time.Duration\<close> is a signed 64-bit count of nanoseconds; arithmetic on it wraps
  around. Durations are integers here, and every duration the code computes from a
  run-time value goes through \<open>wrap64\<close>. A \<open>time.Time\<close> holds a signed 64-bit count of
  seconds since the year 1 and a count of nanoseconds within the second; \<open>Before\<close> and
  \<open>After\<close> compare those two numbers. A time is modelled by the place it takes in that
  comparison: its nanoseconds relative to the Unix epoch, an unbounded integer. The
  clock readings and the sums of a clock reading and a duration that the code forms
  are far inside the range of the seconds counter. \<open>time.Unix\<close> builds a time from a
  run-time number of seconds, and there the counter can wrap around. (\<open>Time.Add\<close> stops
  at the ends of the range of the counter instead of wrapping around. The one sum that
  can come that far is the expiry built by \<open>time.Unix\<close> minus five minutes, at the lower
  end of the range; it lies before every reading of the clock with and without that
  stop, so sums are plain sums here.)
\<close>

type_synonym duration = int
type_synonym gotime = int
type_synonym bytes = string

definition Second :: duration where
  "Second = 1000000000"

definition Minute :: duration where
  "Minute = 60 * Second"

definition wrap64 :: "int \<Rightarrow> int" where
  "wrap64 n = (n + 9223372036854775808) mod 18446744073709551616 - 9223372036854775808"

definition maxDuration :: duration where
  "maxDuration = 9223372036854775807"

definition minDuration :: duration where
  "minDuration = - 9223372036854775808"

text \<open>A count of nanoseconds that a \<open>time.Duration\<close> holds without wrapping.\<close>

definition fitsDuration :: "int \<Rightarrow> bool" where
  "fitsDuration n = (minDuration \<le> n \<and> n \<le> maxDuration)"

text \<open>A number that an \<open>int64\<close> holds.\<close>

definition fitsInt64 :: "int \<Rightarrow> bool" where
  "fitsInt64 n = (- 9223372036854775808 \<le> n \<and> n \<le> 9223372036854775807)"

text \<open>
  The seconds between the year 1 and the Unix epoch (\<open>unixToInternal\<close> of package
  \<open>time\<close>).
\<close>

definition unixToInternal :: int where
  "unixToInternal = 62135596800"

text \<open>
  \<open>time.Unix(sec, nsec)\<close>. A nanosecond count outside \<open>[0, 1e9)\<close> is carried into the
  seconds (Go's \<open>/\<close> truncates towards zero). The seconds counter of the time built is
  \<open>sec + unixToInternal\<close> in 64 bits: for \<open>sec\<close> above 9223371974719179007 it wraps
  around, and the time built lies some 292 billion years in the past.
\<close>

definition Unix :: "int \<Rightarrow> int \<Rightarrow> gotime" where
  "Unix sec nsec =
     (case (if nsec < 0 \<or> nsec \<ge> 1000000000 then
              (let n = (if nsec < 0 then - ((- nsec) div 1000000000) else nsec div 1000000000);
                   sec1 = wrap64 (sec + n);
                   nsec1 = nsec - n * 1000000000
               in if nsec1 < 0 then (wrap64 (sec1 - 1), nsec1 + 1000000000) else (sec1, nsec1))
            else (sec, nsec)) of
        (s, ns) \<Rightarrow> (wrap64 (s + unixToInternal) - unixToInternal) * Second + ns)"


text \<open>
  Error values. \<open>Nil\<close> is Go's \<open>nil\<close> error. \<open>AuthenticationError\<close> and \<open>OAuthError\<close> are
  the structs of \<open>internal/auth/continue/errors.go\<close> (fields in declaration order: Type,
  Message, Code, Cause; and Code, Description, URI, StatusCode). \<open>StatusErr\<close> is the
  executors' \<open>statusErr{code, msg}\<close>. \<open>Wrapped\<close> is \<open>fmt.Errorf("...: %w", err)\<close>, and
  \<open>Plain\<close> is any error without a chain (\<open>fmt.Errorf\<close> without \<open>%w\<close>, transport and
  decoding errors of the standard library).
\<close>

datatype goerr =
    Nil
  | AuthenticationError string string int goerr
  | OAuthError string string string int
  | StatusErr int string
  | Wrapped string goerr
  | Plain string

text \<open>Decimal printing, for the \<open>%d\<close> verbs of the source.\<close>

definition digit_char :: "nat \<Rightarrow> char" where
  "digit_char d = ''0123456789'' ! d"

fun show_nat :: "nat \<Rightarrow> string" where
  "show_nat n = (if n < 10 then [digit_char n] else show_nat (n div 10) @ [digit_char (n mod 10)])"

declare show_nat.simps [simp del]

definition show_int :: "int \<Rightarrow> string" where
  "show_int i = (if i < 0 then CHR ''-'' # show_nat (nat (- i)) else show_nat (nat i))"

definition isHTTPSuccess :: "int \<Rightarrow> bool" where
  "isHTTPSuccess statusCode = (statusCode \<ge> 200 \<and> statusCode < 300)"

text \<open>
  The outcome of one HTTP exchange: building the request failed, the round trip failed,
  or a response arrived. \<open>io.ReadAll\<close> on the response body gives the bytes read and the
  error that stopped the read (\<open>Nil\<close> at a clean end of the body).
\<close>

record http_response =
  StatusCode :: int
  Body :: bytes
  ReadErr :: goerr

datatype http_result =
    RequestError goerr
  | TransportError goerr
  | Reply http_response

section \<open>Continue: errors and the second-stage token\<close>

definition ErrDeviceCodeFailed :: goerr where
  "ErrDeviceCodeFailed =
     AuthenticationError ''device_code_failed'' ''Failed to request device code from Continue.dev'' 400 Nil"

definition ErrDeviceCodeExpired :: goerr where
  "ErrDeviceCodeExpired =
     AuthenticationError ''device_code_expired'' ''Device code has expired. Please try again.'' 410 Nil"

definition ErrAuthorizationPending :: goerr where
  "ErrAuthorizationPending =
     AuthenticationError ''authorization_pending''
       ''Authorization is pending. Waiting for user to authorize.'' 202 Nil"

definition ErrSlowDown :: goerr where
  "ErrSlowDown = AuthenticationError ''slow_down'' ''Polling too frequently. Slowing down.'' 429 Nil"

definition ErrAccessDenied :: goerr where
  "ErrAccessDenied = AuthenticationError ''access_denied'' ''User denied authorization'' 403 Nil"

definition ErrTokenExchangeFailed :: goerr where
  "ErrTokenExchangeFailed =
     AuthenticationError ''token_exchange_failed''
       ''Failed to exchange device code for access token'' 400 Nil"

definition ErrPollingTimeout :: goerr where
  "ErrPollingTimeout =
     AuthenticationError ''polling_timeout'' ''Timeout waiting for user authorization'' 408 Nil"

definition ErrUserInfoFailed :: goerr where
  "ErrUserInfoFailed =
     AuthenticationError ''user_info_failed''
       ''Failed to fetch Continue.dev user information'' 400 Nil"

text \<open>
  \<open>NewAuthenticationError(baseErr, cause)\<close> copies Type, Message and Code of the base
  error. The base is always one of the package's predefined errors.
\<close>

fun NewAuthenticationError :: "goerr \<Rightarrow> goerr \<Rightarrow> goerr" where
  "NewAuthenticationError (AuthenticationError t m c _) cause = AuthenticationError t m c cause"
| "NewAuthenticationError e cause = e"

definition NewOAuthError :: "string \<Rightarrow> string \<Rightarrow> int \<Rightarrow> goerr" where
  "NewOAuthError c description statusCode = OAuthError c description [] statusCode"

record ContinueAPIToken =
  Token :: string
  ExpiresAt :: int

record ContinueTokenStorage =
  AccessToken :: string
  TokenType :: string
  Scope :: string
  StorageExpiresAt :: string
  Username :: string
  StorageType :: string

text \<open>
  \<open>ContinueAuth.GetContinueAPIToken\<close>. The GET to \<open>/auth/token\<close> and \<open>json.Unmarshal\<close> are
  the two collaborators: \<open>get\<close> gives the outcome of the exchange for an access token,
  \<open>unmarshal\<close> decodes a body into the struct.
\<close>

definition GetContinueAPIToken ::
  "(string \<Rightarrow> http_result) \<Rightarrow> (bytes \<Rightarrow> goerr + ContinueAPIToken) \<Rightarrow> string
     \<Rightarrow> goerr + ContinueAPIToken" where
  "GetContinueAPIToken get unmarshal accessToken =
     (if accessToken = [] then
        Inl (NewAuthenticationError ErrTokenExchangeFailed (Plain ''access token is empty''))
      else
        (case get accessToken of
           RequestError e \<Rightarrow> Inl (NewAuthenticationError ErrTokenExchangeFailed e)
         | TransportError e \<Rightarrow> Inl (NewAuthenticationError ErrTokenExchangeFailed e)
         | Reply resp \<Rightarrow>
             if ReadErr resp \<noteq> Nil then
               Inl (NewAuthenticationError ErrTokenExchangeFailed (ReadErr resp))
             else if \<not> isHTTPSuccess (StatusCode resp) then
               Inl (NewAuthenticationError ErrTokenExchangeFailed
                      (Plain (''status '' @ show_int (StatusCode resp) @ '': '' @ Body resp)))
             else
               (case unmarshal (Body resp) of
                  Inl e \<Rightarrow> Inl (NewAuthenticationError ErrTokenExchangeFailed e)
                | Inr apiToken \<Rightarrow>
                    if Token apiToken = [] then
                      Inl (NewAuthenticationError ErrTokenExchangeFailed
                             (Plain ''empty continue api token''))
                    else Inr apiToken)))"

section \<open>The executors' token caches\<close>

text \<open>
  \<open>cliproxyauth.Auth\<close>, with the fields the executors read. Metadata is a
  \<open>map[string]any\<close>.
\<close>

datatype anyval = AnyString string | AnyInt int | AnyBool bool | AnyOther

record Auth =
  ID :: string
  Label :: string
  Provider :: string
  Attributes :: "string \<rightharpoonup> string"
  Metadata :: "string \<rightharpoonup> anyval"

definition continueTokenCacheTTL :: duration where
  "continueTokenCacheTTL = 25 * Minute"

definition windsurfTokenTTL :: duration where
  "windsurfTokenTTL = 25 * Minute"

definition tokenExpiryBuffer :: duration where
  "tokenExpiryBuffer = 5 * Minute"

record cachedAPIToken =
  token :: string
  expiresAt :: gotime

text \<open>
  What \<open>ContinueExecutor.ensureAPIToken\<close> reaches outside the executor:
  \<open>auth.LoadStorage\<close> (a method of the SDK's Auth), the GET of the exchange and the JSON
  decoder.
\<close>

record continue_world =
  LoadStorage :: "Auth \<Rightarrow> goerr + ContinueTokenStorage"
  ApiTokenGet :: "string \<Rightarrow> http_result"
  ApiTokenUnmarshal :: "bytes \<Rightarrow> goerr + ContinueAPIToken"

text \<open>
  \<open>ContinueExecutor.ensureAPIToken\<close>. The cache is a \<open>map[string]*cachedAPIToken\<close>: a key
  can be absent, or present with a nil pointer. The function returns the cache it
  leaves behind and the Go result \<open>(string, error)\<close>.
\<close>

definition Continue_ensureAPIToken ::
  "continue_world \<Rightarrow> (string \<rightharpoonup> cachedAPIToken option) \<Rightarrow> gotime \<Rightarrow> Auth option
     \<Rightarrow> (string \<rightharpoonup> cachedAPIToken option) \<times> (goerr + string)" where
  "Continue_ensureAPIToken w cache now auth =
     (case auth of
        None \<Rightarrow> (cache, Inl (Plain ''continue executor: auth is nil''))
      | Some a \<Rightarrow>
          (case (case cache (ID a) of
                   Some (Some cached) \<Rightarrow>
                     if now < expiresAt cached + (- tokenExpiryBuffer) then Some (token cached)
                     else None
                 | _ \<Rightarrow> None) of
             Some t \<Rightarrow> (cache, Inr t)
           | None \<Rightarrow>
               (case LoadStorage w a of
                  Inl err \<Rightarrow>
                    (cache, Inl (Wrapped ''continue executor: failed to load token storage'' err))
                | Inr storage \<Rightarrow>
                    (case GetContinueAPIToken (ApiTokenGet w) (ApiTokenUnmarshal w)
                            (AccessToken storage) of
                       Inl err \<Rightarrow>
                         (cache, Inl (Wrapped ''continue executor: failed to get API token'' err))
                     | Inr apiToken \<Rightarrow>
                         if Token apiToken = [] then
                           (cache, Inl (Plain ''continue executor: empty API token''))
                         else
                           (let expiry =
                                  (if ExpiresAt apiToken > 0 then Unix (ExpiresAt apiToken) 0
                                   else now + continueTokenCacheTTL)
                            in (cache(ID a \<mapsto> Some \<lparr>token = Token apiToken, expiresAt = expiry\<rparr>),
                                Inr (Token apiToken)))))))"

record cachedWindsurfToken =
  wtoken :: string
  wexpiresAt :: gotime

text \<open>
  \<open>WindsurfExecutor.ensureAPIToken\<close>. \<open>metaStringValue\<close> is a helper of the executor
  package that reads a string out of the metadata map; it is a parameter. The cache
  holds only pointers made by this function, never nil. The two readings of the clock
  in the function are one instant \<open>now\<close>.
\<close>

definition Windsurf_ensureAPIToken ::
  "((string \<rightharpoonup> anyval) \<Rightarrow> string \<Rightarrow> string) \<Rightarrow> (string \<rightharpoonup> cachedWindsurfToken) \<Rightarrow> gotime
     \<Rightarrow> Auth option \<Rightarrow> (string \<rightharpoonup> cachedWindsurfToken) \<times> (goerr + string)" where
  "Windsurf_ensureAPIToken metaStringValue cache now auth =
     (case auth of
        None \<Rightarrow> (cache, Inl (StatusErr 401 ''missing auth''))
      | Some a \<Rightarrow>
          (let accessToken = metaStringValue (Metadata a) ''access_token'' in
           if accessToken = [] then (cache, Inl (StatusErr 401 ''missing windsurf access token''))
           else
             (case (case cache accessToken of
                      Some cached \<Rightarrow>
                        if wexpiresAt cached > now + tokenExpiryBuffer then Some (wtoken cached)
                        else None
                    | None \<Rightarrow> None) of
                Some t \<Rightarrow> (cache, Inr t)
              | None \<Rightarrow>
                  (cache(accessToken \<mapsto>
                     \<lparr>wtoken = accessToken, wexpiresAt = now + windsurfTokenTTL\<rparr>),
                   Inr accessToken))))"

text \<open>
  Every entry the Windsurf executor writes maps an access token to itself. The cache
  starts empty and only \<open>ensureAPIToken\<close> writes to it, so this holds of every cache the
  executor ever has.
\<close>

definition windsurf_cache_ok :: "(string \<rightharpoonup> cachedWindsurfToken) \<Rightarrow> bool" where
  "windsurf_cache_ok cache = (\<forall>k c. cache k = Some c \<longrightarrow> wtoken c = k)"

section \<open>The device flow of Continue\<close>

record DeviceCodeResponse =
  DeviceCode :: string
  UserCode :: string
  VerificationURI :: string
  ExpiresIn :: int
  Interval :: int

record ContinueTokenData =
  tdAccessToken :: string
  tdTokenType :: string
  tdScope :: string

text \<open>The anonymous struct \<open>oauthResp\<close> that \<open>exchangeDeviceCode\<close> decodes the body into.\<close>

record oauthResp =
  Error :: string
  ErrorDescription :: string
  RespAccessToken :: string
  RespTokenType :: string
  RespScope :: string

definition defaultPollInterval :: duration where
  "defaultPollInterval = 5 * Second"

definition maxPollDuration :: duration where
  "maxPollDuration = 15 * Minute"

text \<open>
  \<open>DeviceFlowClient.exchangeDeviceCode\<close>, given the outcome of the POST to the token
  endpoint. The HTTP status is never tested: it only travels in the \<open>OAuthError\<close> of
  an unknown error code.
\<close>

definition exchangeDeviceCode ::
  "(bytes \<Rightarrow> goerr + oauthResp) \<Rightarrow> http_result \<Rightarrow> goerr + ContinueTokenData" where
  "exchangeDeviceCode unmarshal r =
     (case r of
        RequestError e \<Rightarrow> Inl (NewAuthenticationError ErrTokenExchangeFailed e)
      | TransportError e \<Rightarrow> Inl (NewAuthenticationError ErrTokenExchangeFailed e)
      | Reply resp \<Rightarrow>
          if ReadErr resp \<noteq> Nil then
            Inl (NewAuthenticationError ErrTokenExchangeFailed (ReadErr resp))
          else
            (case unmarshal (Body resp) of
               Inl e \<Rightarrow> Inl (NewAuthenticationError ErrTokenExchangeFailed e)
             | Inr oresp \<Rightarrow>
                 if Error oresp \<noteq> [] then
                   (if Error oresp = ''authorization_pending'' then Inl ErrAuthorizationPending
                    else if Error oresp = ''slow_down'' then Inl ErrSlowDown
                    else if Error oresp = ''expired_token'' then Inl ErrDeviceCodeExpired
                    else if Error oresp = ''access_denied'' then Inl ErrAccessDenied
                    else Inl (NewOAuthError (Error oresp) (ErrorDescription oresp) (StatusCode resp)))
                 else if RespAccessToken oresp = [] then
                   Inl (NewAuthenticationError ErrTokenExchangeFailed (Plain ''empty access token''))
                 else
                   Inr \<lparr>tdAccessToken = RespAccessToken oresp, tdTokenType = RespTokenType oresp,
                        tdScope = RespScope oresp\<rparr>))"

text \<open>
  The \<open>error\<close> member and the \<open>access_token\<close> member of the body of a reply, when the
  body was read and decoded.
\<close>

definition reply_body :: "(bytes \<Rightarrow> goerr + oauthResp) \<Rightarrow> http_result \<Rightarrow> oauthResp option" where
  "reply_body unmarshal r =
     (case r of
        Reply resp \<Rightarrow>
          if ReadErr resp = Nil then
            (case unmarshal (Body resp) of Inr oresp \<Rightarrow> Some oresp | Inl e \<Rightarrow> None)
          else None
      | _ \<Rightarrow> None)"

definition reply_status :: "http_result \<Rightarrow> int option" where
  "reply_status r = (case r of Reply resp \<Rightarrow> Some (StatusCode resp) | _ \<Rightarrow> None)"

text \<open>
  \<open>errors.As\<close> with a target of type \<open>*AuthenticationError\<close>, and of type \<open>*OAuthError\<close>:
  the first error of that type on the chain. \<open>AuthenticationError.Unwrap\<close> returns the
  cause; \<open>OAuthError\<close> and \<open>statusErr\<close> have no \<open>Unwrap\<close>.
\<close>

fun asAuthenticationError :: "goerr \<Rightarrow> goerr option" where
  "asAuthenticationError (AuthenticationError t m c cause) = Some (AuthenticationError t m c cause)"
| "asAuthenticationError (Wrapped s e) = asAuthenticationError e"
| "asAuthenticationError e = None"

fun asOAuthError :: "goerr \<Rightarrow> goerr option" where
  "asOAuthError (OAuthError c d u s) = Some (OAuthError c d u s)"
| "asOAuthError (AuthenticationError t m c cause) = asOAuthError cause"
| "asOAuthError (Wrapped s e) = asOAuthError e"
| "asOAuthError e = None"

text \<open>
  A run of \<open>PollForToken\<close>: when it returned, the instants at which it read the clock
  before calling the token endpoint, and what it returned. \<open>time.NewTicker\<close> and
  \<open>Ticker.Reset\<close> panic on a period that is not positive, so a run can also end in a
  panic.
\<close>

datatype poll_outcome = Panicked string | Returned "goerr + ContinueTokenData"

record poll_run =
  finishedAt :: gotime
  polledAt :: "gotime list"
  outcome :: poll_outcome

definition polled :: "gotime \<Rightarrow> poll_run \<Rightarrow> poll_run" where
  "polled t r = r\<lparr>polledAt := t # polledAt r\<rparr>"

text \<open>
  How long the steps of the loop take, in nanoseconds. \<open>Lag tm k\<close> is the time between the
  instant the loop receives its \<open>k\<close>-th tick and the reading of the clock that follows it
  (the test of the deadline). \<open>Took tm k\<close> is the time from that reading until
  \<open>exchangeDeviceCode\<close> has returned and the loop has acted on what it returned. (The HTTP
  client of the device flow gives up on an exchange after 30 seconds.)
\<close>

record timing =
  Took :: "nat \<Rightarrow> nat"
  Lag :: "nat \<Rightarrow> nat"

text \<open>
  A ticker sends a tick every period, counted from its start or its last \<open>Reset\<close>, into
  a channel that holds one tick; a tick that finds the channel full is dropped. \<open>due\<close>
  is the instant at which the tick the loop receives next is sent. A loop that is back
  at its \<open>select\<close> at \<open>now\<close> receives that tick at \<open>tick_at now due\<close>: at once when the
  tick is waiting in the channel, and when it is sent otherwise. The tick after it is
  the first one that the ticker sends later than that: \<open>next_tick\<close>. The clock is read at
  \<open>read_at\<close>, and the loop has dealt with the answer of the endpoint at \<open>done_at\<close>.
\<close>

definition next_tick :: "gotime \<Rightarrow> duration \<Rightarrow> gotime \<Rightarrow> gotime" where
  "next_tick due period r = due + period * ((r - due) div period + 1)"

definition tick_at :: "gotime \<Rightarrow> gotime \<Rightarrow> gotime" where
  "tick_at now due = max now due"

definition read_at :: "timing \<Rightarrow> nat \<Rightarrow> gotime \<Rightarrow> gotime \<Rightarrow> gotime" where
  "read_at tm k now due = tick_at now due + int (Lag tm k)"

definition done_at :: "timing \<Rightarrow> nat \<Rightarrow> gotime \<Rightarrow> gotime \<Rightarrow> gotime" where
  "done_at tm k now due = read_at tm k now due + int (Took tm k)"

text \<open>
  The \<open>for { select { ... } }\<close> loop of \<open>PollForToken\<close>. \<open>now\<close> is the instant at which the
  loop is at its \<open>select\<close> (the start of the ticker at first), \<open>due\<close> the instant of the
  tick it receives next and \<open>interval\<close> the period of the ticker. The loop receives the
  tick, reads the clock, tests the deadline and calls the endpoint; \<open>endpoint k\<close> is the
  outcome of the \<open>k\<close>-th POST. After \<open>authorization_pending\<close> the ticker runs on. After
  \<open>slow_down\<close> the ticker is reset: the next tick comes one new period after the \<open>Reset\<close>
  (as of Go 1.23 a \<open>Reset\<close> leaves no earlier tick in the channel). \<open>cancelAt\<close> is the
  instant at which the context is done, if ever. A context that is done before the
  instant at which the tick is received wins the \<open>select\<close>; when the context is done at
  that very instant the tick is taken (Go takes either). The test of the period at the
  head of the loop is the panic of \<open>NewTicker\<close> and \<open>Reset\<close>.
\<close>

function poll_loop ::
  "(bytes \<Rightarrow> goerr + oauthResp) \<Rightarrow> (nat \<Rightarrow> http_result) \<Rightarrow> timing \<Rightarrow> gotime option \<Rightarrow> gotime
     \<Rightarrow> nat \<Rightarrow> gotime \<Rightarrow> gotime \<Rightarrow> duration \<Rightarrow> poll_run" where
  "poll_loop unmarshal endpoint tm cancelAt deadline k now due interval =
     (if interval \<le> 0 then
        \<lparr>finishedAt = now, polledAt = [],
         outcome = Panicked ''non-positive interval for Ticker''\<rparr>
      else if (case cancelAt of Some c \<Rightarrow> c < tick_at now due | None \<Rightarrow> False) then
        \<lparr>finishedAt = (case cancelAt of Some c \<Rightarrow> max c now | None \<Rightarrow> now), polledAt = [],
         outcome = Returned (Inl (NewAuthenticationError ErrPollingTimeout (Plain ''context canceled'')))\<rparr>
      else if read_at tm k now due > deadline then
        \<lparr>finishedAt = read_at tm k now due, polledAt = [],
         outcome = Returned (Inl ErrPollingTimeout)\<rparr>
      else
        (case exchangeDeviceCode unmarshal (endpoint k) of
           Inr tok \<Rightarrow>
             \<lparr>finishedAt = done_at tm k now due, polledAt = [read_at tm k now due],
              outcome = Returned (Inr tok)\<rparr>
         | Inl err \<Rightarrow>
             (case asAuthenticationError err of
                Some (AuthenticationError t m c cause) \<Rightarrow>
                  if t = ''authorization_pending'' then
                    polled (read_at tm k now due)
                      (poll_loop unmarshal endpoint tm cancelAt deadline (Suc k)
                         (done_at tm k now due) (next_tick due interval (tick_at now due)) interval)
                  else if t = ''slow_down'' then
                    polled (read_at tm k now due)
                      (poll_loop unmarshal endpoint tm cancelAt deadline (Suc k)
                         (done_at tm k now due)
                         (done_at tm k now due + wrap64 (interval + 5 * Second))
                         (wrap64 (interval + 5 * Second)))
                  else if t = ''device_code_expired'' then
                    \<lparr>finishedAt = done_at tm k now due, polledAt = [read_at tm k now due],
                     outcome = Returned (Inl err)\<rparr>
                  else if t = ''access_denied'' then
                    \<lparr>finishedAt = done_at tm k now due, polledAt = [read_at tm k now due],
                     outcome = Returned (Inl err)\<rparr>
                  else
                    \<lparr>finishedAt = done_at tm k now due, polledAt = [read_at tm k now due],
                     outcome = Returned (Inl err)\<rparr>
              | _ \<Rightarrow>
                  \<lparr>finishedAt = done_at tm k now due, polledAt = [read_at tm k now due],
                   outcome = Returned (Inl err)\<rparr>)))"
  by pat_completeness auto
termination
proof (relation "measure (\<lambda>(unmarshal, endpoint, tm, cancelAt, deadline, k, now, due, interval).
        if interval \<le> 0 then 0 else 1 + nat (deadline + 1 - due))", goal_cases)
  case 1
  show ?case by simp
next
  case (2 unmarshal endpoint tm cancelAt deadline k now due interval)
  define q where "q = interval * ((tick_at now due - due) div interval)"
  have e: "tick_at now due - due = q + (tick_at now due - due) mod interval"
    by (simp add: q_def)
  have m: "(tick_at now due - due) mod interval < interval"
    using 2 by simp
  have n: "next_tick due interval (tick_at now due) = due + q + interval"
    by (simp add: next_tick_def q_def algebra_simps)
  have "due \<le> tick_at now due"
    by (simp add: tick_at_def)
  with e m n have "due < next_tick due interval (tick_at now due)"
    by linarith
  moreover have "due \<le> deadline"
    using 2 by (auto simp: read_at_def tick_at_def)
  ultimately show ?case
    using 2 by auto
next
  case (3 unmarshal endpoint tm cancelAt deadline k now due interval)
  then have "due \<le> deadline" "due \<le> done_at tm k now due"
    by (auto simp: done_at_def read_at_def tick_at_def)
  with 3 show ?case by auto
qed

declare poll_loop.simps [simp del]

text \<open>
  \<open>DeviceFlowClient.PollForToken\<close>, entered at the instant \<open>t0\<close> (the two readings of
  the clock before the loop and the start of the ticker are that instant).
\<close>

definition PollForToken ::
  "(bytes \<Rightarrow> goerr + oauthResp) \<Rightarrow> (nat \<Rightarrow> http_result) \<Rightarrow> timing \<Rightarrow> gotime option \<Rightarrow> gotime
     \<Rightarrow> DeviceCodeResponse option \<Rightarrow> poll_run" where
  "PollForToken unmarshal endpoint tm cancelAt t0 deviceCode =
     (case deviceCode of
        None \<Rightarrow>
          \<lparr>finishedAt = t0, polledAt = [],
           outcome = Returned (Inl (NewAuthenticationError ErrTokenExchangeFailed
                                     (Plain ''device code is nil'')))\<rparr>
      | Some dc \<Rightarrow>
          (let interval0 = wrap64 (Interval dc * Second);
               interval = (if interval0 < defaultPollInterval then defaultPollInterval else interval0);
               deadline0 = t0 + maxPollDuration;
               deadline =
                 (if ExpiresIn dc > 0 then
                    (let codeDeadline = t0 + wrap64 (ExpiresIn dc * Second)
                     in if codeDeadline < deadline0 then codeDeadline else deadline0)
                  else deadline0)
           in poll_loop unmarshal endpoint tm cancelAt deadline 0 t0 (t0 + interval) interval))"

text \<open>
  A state of the loop in which the next tick is received before the context is done
  and the clock read after it has not passed the deadline: the endpoint is polled.
\<close>

definition live :: "timing \<Rightarrow> gotime option \<Rightarrow> gotime \<Rightarrow> nat \<Rightarrow> gotime \<Rightarrow> gotime \<Rightarrow> duration \<Rightarrow> bool" where
  "live tm cancelAt deadline k now due interval =
     (0 < interval \<and> read_at tm k now due \<le> deadline
      \<and> (case cancelAt of Some c \<Rightarrow> tick_at now due \<le> c | None \<Rightarrow> True))"

section \<open>User-facing messages for authentication errors\<close>

text \<open>\<open>GetUserFriendlyMessage\<close> of \<open>internal/auth/continue/errors.go\<close>.\<close>

definition Continue_GetUserFriendlyMessage :: "goerr \<Rightarrow> string" where
  "Continue_GetUserFriendlyMessage err =
     (case asAuthenticationError err of
        Some (AuthenticationError t m c cause) \<Rightarrow>
          if t = ''device_code_failed'' then
            ''Failed to start Continue.dev authentication. Please check your network connection and try again.''
          else if t = ''device_code_expired'' then
            ''The authentication code has expired. Please try again.''
          else if t = ''authorization_pending'' then
            ''Waiting for you to authorize the application on Continue.dev.''
          else if t = ''slow_down'' then ''Please wait a moment before trying again.''
          else if t = ''access_denied'' then ''Authentication was cancelled or denied.''
          else if t = ''token_exchange_failed'' then
            ''Failed to complete authentication. Please try again.''
          else if t = ''polling_timeout'' then ''Authentication timed out. Please try again.''
          else if t = ''user_info_failed'' then
            ''Failed to get your Continue.dev account information. Please try again.''
          else ''Authentication failed. Please try again.''
      | _ \<Rightarrow>
          (case asOAuthError err of
             Some (OAuthError c d u s) \<Rightarrow>
               if c = ''access_denied'' then ''Authentication was cancelled or denied.''
               else if c = ''invalid_request'' then
                 ''Invalid authentication request. Please try again.''
               else if c = ''server_error'' then
                 ''Continue.dev server error. Please try again later.''
               else ''Authentication failed: '' @ d
           | _ \<Rightarrow> ''An unexpected error occurred. Please try again.''))"

text \<open>The string constants that \<open>GetUserFriendlyMessage\<close> of Continue can return as they are.\<close>

definition continue_messages :: "string list" where
  "continue_messages =
     [''Failed to start Continue.dev authentication. Please check your network connection and try again.'',
      ''The authentication code has expired. Please try again.'',
      ''Waiting for you to authorize the application on Continue.dev.'',
      ''Please wait a moment before trying again.'',
      ''Authentication was cancelled or denied.'',
      ''Failed to complete authentication. Please try again.'',
      ''Authentication timed out. Please try again.'',
      ''Failed to get your Continue.dev account information. Please try again.'',
      ''Authentication failed. Please try again.'',
      ''Invalid authentication request. Please try again.'',
      ''Continue.dev server error. Please try again later.'',
      ''An unexpected error occurred. Please try again.'']"




text \<open>
  The errors of \<open>internal/auth/cursor/errors.go\<close>: \<open>AuthenticationError{Type, Message,
  Err}\<close>, \<open>OAuthError{Error, ErrorDescription, StatusCode}\<close>, and any other error with the
  text of its \<open>Error()\<close>. \<open>CNil\<close> is \<open>nil\<close>. (\<open>OAuthError\<close> declares a field and a method
  both named \<open>Error\<close>, which the Go compiler does not accept; the functions are modelled
  as they are written.)
\<close>

datatype cursor_err =
    CNil
  | CAuthenticationError string string cursor_err
  | COAuthError string string int
  | COther string

definition ErrTypeDeviceCode :: string where "ErrTypeDeviceCode = ''device_code_failed''"
definition ErrTypeTokenExchange :: string where "ErrTypeTokenExchange = ''token_exchange_failed''"
definition ErrTypeAuthPending :: string where "ErrTypeAuthPending = ''authorization_pending''"
definition ErrTypeSlowDown :: string where "ErrTypeSlowDown = ''slow_down''"
definition ErrTypeExpired :: string where "ErrTypeExpired = ''expired_token''"
definition ErrTypeAccessDenied :: string where "ErrTypeAccessDenied = ''access_denied''"
definition ErrTypePollingTimeout :: string where "ErrTypePollingTimeout = ''polling_timeout''"
definition ErrTypeUserInfo :: string where "ErrTypeUserInfo = ''user_info_failed''"

text \<open>The \<open>Error()\<close> methods; \<open>%v\<close> of an error prints its \<open>Error()\<close>, and \<open><nil>\<close> for nil.\<close>

fun cursor_Error :: "cursor_err \<Rightarrow> string" where
  "cursor_Error CNil = ''<nil>''"
| "cursor_Error (CAuthenticationError t m e) =
     (if e \<noteq> CNil then ''cursor auth: '' @ m @ '': '' @ cursor_Error e
      else ''cursor auth: '' @ m)"
| "cursor_Error (COAuthError e d s) =
     (if d \<noteq> [] then ''cursor oauth: '' @ e @ '': '' @ d @ '' (status '' @ show_int s @ '')''
      else ''cursor oauth: '' @ e @ '' (status '' @ show_int s @ '')'')"
| "cursor_Error (COther s) = s"

text \<open>
  \<open>GetUserFriendlyMessage\<close> of \<open>internal/auth/cursor/errors.go\<close>. The type assertion
  \<open>err.(*AuthenticationError)\<close> looks at the error itself, not at its chain.
\<close>

definition Cursor_GetUserFriendlyMessage :: "cursor_err \<Rightarrow> string" where
  "Cursor_GetUserFriendlyMessage err =
     (if err = CNil then []
      else
        (case (case err of
                 CAuthenticationError t m e \<Rightarrow>
                   if t = ErrTypeDeviceCode then
                     Some ''Failed to start authentication. Please check your internet connection and try again.''
                   else if t = ErrTypeTokenExchange then
                     Some ''Failed to complete authentication. Please try again.''
                   else if t = ErrTypeExpired then
                     Some ''The authentication code has expired. Please start the authentication process again.''
                   else if t = ErrTypeAccessDenied then
                     Some ''Authentication was denied. Please try again and authorize the application.''
                   else if t = ErrTypePollingTimeout then
                     Some ''Authentication timed out. Please start the authentication process again and complete it more quickly.''
                   else if t = ErrTypeUserInfo then
                     Some ''Failed to retrieve user information. Your authentication may still be valid.''
                   else None
               | _ \<Rightarrow> None) of
           Some message \<Rightarrow> message
         | None \<Rightarrow> ''Authentication failed: '' @ cursor_Error err))"

definition cursor_messages :: "string list" where
  "cursor_messages =
     [''Failed to start authentication. Please check your internet connection and try again.'',
      ''Failed to complete authentication. Please try again.'',
      ''The authentication code has expired. Please start the authentication process again.'',
      ''Authentication was denied. Please try again and authorize the application.'',
      ''Authentication timed out. Please start the authentication process again and complete it more quickly.'',
      ''Failed to retrieve user information. Your authentication may still be valid.'']"


section \<open>Translators between OpenAI-compatible dialects\<close>

text \<open>
  The request and response converters registered for the pairs of OpenAI-compatible
  dialects. The context and the \<open>param\<close> state are not read by any of them and are left
  out; \<open>nil\<close> of type \<open>[]string\<close> is the empty list.
\<close>

definition ConvertOpenAIRequestToWindsurf :: "string \<Rightarrow> bytes \<Rightarrow> bool \<Rightarrow> bytes" where
  "ConvertOpenAIRequestToWindsurf model body stream = body"

definition ConvertWindsurfResponseToOpenAI :: "bytes \<Rightarrow> bytes \<Rightarrow> string \<Rightarrow> bytes \<Rightarrow> string list" where
  "ConvertWindsurfResponseToOpenAI originalRequest translatedRequest model line =
     (if length line = 0 then [] else [line])"

definition ConvertWindsurfResponseToOpenAINonStream :: "bytes \<Rightarrow> bytes \<Rightarrow> string \<Rightarrow> bytes \<Rightarrow> string" where
  "ConvertWindsurfResponseToOpenAINonStream originalRequest translatedRequest model body = body"

definition ConvertWindsurfRequestToOpenAI :: "string \<Rightarrow> bytes \<Rightarrow> bool \<Rightarrow> bytes" where
  "ConvertWindsurfRequestToOpenAI model body stream = body"

definition ConvertOpenAIResponseToWindsurf :: "bytes \<Rightarrow> bytes \<Rightarrow> string \<Rightarrow> bytes \<Rightarrow> string list" where
  "ConvertOpenAIResponseToWindsurf originalRequest translatedRequest model line =
     (if length line = 0 then [] else [line])"

definition ConvertOpenAIResponseToWindsurfNonStream :: "bytes \<Rightarrow> bytes \<Rightarrow> string \<Rightarrow> bytes \<Rightarrow> string" where
  "ConvertOpenAIResponseToWindsurfNonStream originalRequest translatedRequest model body = body"

definition ConvertOpenAIResponseRequestToWindsurf :: "string \<Rightarrow> bytes \<Rightarrow> bool \<Rightarrow> bytes" where
  "ConvertOpenAIResponseRequestToWindsurf model body stream = body"

definition ConvertWindsurfResponseToOpenAIResponse :: "bytes \<Rightarrow> bytes \<Rightarrow> string \<Rightarrow> bytes \<Rightarrow> string list" where
  "ConvertWindsurfResponseToOpenAIResponse originalRequest translatedRequest model line =
     (if length line = 0 then [] else [line])"

definition ConvertWindsurfResponseToOpenAIResponseNonStream ::
  "bytes \<Rightarrow> bytes \<Rightarrow> string \<Rightarrow> bytes \<Rightarrow> string" where
  "ConvertWindsurfResponseToOpenAIResponseNonStream originalRequest translatedRequest model body = body"

definition ConvertOpenAIRequestToCursor :: "string \<Rightarrow> bytes \<Rightarrow> bool \<Rightarrow> bytes" where
  "ConvertOpenAIRequestToCursor model body stream = body"

definition ConvertCursorResponseToOpenAI :: "bytes \<Rightarrow> bytes \<Rightarrow> string \<Rightarrow> bytes \<Rightarrow> string list" where
  "ConvertCursorResponseToOpenAI originalRequest translatedRequest model line =
     (if length line = 0 then [] else [line])"

definition ConvertCursorResponseToOpenAINonStream :: "bytes \<Rightarrow> bytes \<Rightarrow> string \<Rightarrow> bytes \<Rightarrow> string" where
  "ConvertCursorResponseToOpenAINonStream originalRequest translatedRequest model body = body"

definition ConvertOpenAIResponseRequestToCursor :: "string \<Rightarrow> bytes \<Rightarrow> bool \<Rightarrow> bytes" where
  "ConvertOpenAIResponseRequestToCursor model body stream = body"

definition ConvertCursorResponseToOpenAIResponse :: "bytes \<Rightarrow> bytes \<Rightarrow> string \<Rightarrow> bytes \<Rightarrow> string list" where
  "ConvertCursorResponseToOpenAIResponse originalRequest translatedRequest model line =
     (if length line = 0 then [] else [line])"

definition ConvertCursorResponseToOpenAIResponseNonStream ::
  "bytes \<Rightarrow> bytes \<Rightarrow> string \<Rightarrow> bytes \<Rightarrow> string" where
  "ConvertCursorResponseToOpenAIResponseNonStream originalRequest translatedRequest model body = body"

text \<open>
  The response converters of the Continue pairs take the model first and return the
  line always, also when it is empty.
\<close>

definition ConvertContinueResponseToOpenAI :: "string \<Rightarrow> bytes \<Rightarrow> bytes \<Rightarrow> bytes \<Rightarrow> string list" where
  "ConvertContinueResponseToOpenAI model originalRequestRawJSON requestRawJSON rawJSON = [rawJSON]"

definition ConvertContinueResponseToOpenAINonStream :: "string \<Rightarrow> bytes \<Rightarrow> bytes \<Rightarrow> bytes \<Rightarrow> string" where
  "ConvertContinueResponseToOpenAINonStream model originalRequestRawJSON requestRawJSON rawJSON = rawJSON"

definition ConvertOpenAIResponseToContinue :: "string \<Rightarrow> bytes \<Rightarrow> bytes \<Rightarrow> bytes \<Rightarrow> string list" where
  "ConvertOpenAIResponseToContinue model originalRequestRawJSON requestRawJSON rawJSON = [rawJSON]"

definition ConvertOpenAIResponseToContinueNonStream :: "string \<Rightarrow> bytes \<Rightarrow> bytes \<Rightarrow> bytes \<Rightarrow> string" where
  "ConvertOpenAIResponseToContinueNonStream model originalRequestRawJSON requestRawJSON rawJSON = rawJSON"

section \<open>JSON documents and the edits of sjson\<close>

text \<open>
  A request body is a JSON document. \<open>JAbsent\<close> is the empty byte string. The executors
  edit bodies with \<open>sjson.SetBytes\<close> of the library \<open>tidwall/sjson\<close> and drop its error
  (\<open>body, _ = sjson.SetBytes(...)\<close>). \<open>sjson_set\<close> is that edit on a parsed document, for
  a path of member names (none of them a number): a member found is replaced where it
  stands (the first of that name, as \<open>gjson.Get\<close> finds it), a missing member is
  appended, a scalar or empty document in the way is replaced by a new object, and an
  array in the way is an error. On an error the library hands back the document
  unchanged.
\<close>

datatype json =
    JAbsent
  | JNull
  | JBool bool
  | JNum int
  | JStr string
  | JArr "json list"
  | JObj "(string \<times> json) list"

fun build :: "string list \<Rightarrow> json \<Rightarrow> json" where
  "build [] v = v"
| "build (k # ks) v = JObj [(k, build ks v)]"

fun replace_first :: "string \<Rightarrow> json \<Rightarrow> (string \<times> json) list \<Rightarrow> (string \<times> json) list" where
  "replace_first k v [] = []"
| "replace_first k v ((k', x) # kvs) =
     (if k' = k then (k, v) # kvs else (k', x) # replace_first k v kvs)"

fun sjson_set :: "string list \<Rightarrow> json \<Rightarrow> json \<Rightarrow> goerr + json" where
  "sjson_set [] v j = Inl (Plain ''path cannot be empty'')"
| "sjson_set (k # ks) v (JObj kvs) =
     (case map_of kvs k of
        None \<Rightarrow> Inr (JObj (kvs @ [(k, build ks v)]))
      | Some sub \<Rightarrow>
          if ks = [] then Inr (JObj (replace_first k v kvs))
          else
            (case sjson_set ks v sub of
               Inl e \<Rightarrow> Inl e
             | Inr sub' \<Rightarrow> Inr (JObj (replace_first k sub' kvs))))"
| "sjson_set (k # ks) v (JArr xs) =
     Inl (Plain ''cannot set array element for non-numeric key'')"
| "sjson_set (k # ks) v j = Inr (JObj [(k, build ks v)])"

definition SetBytes :: "json \<Rightarrow> string list \<Rightarrow> json \<Rightarrow> json" where
  "SetBytes body path v = (case sjson_set path v body of Inr b \<Rightarrow> b | Inl e \<Rightarrow> body)"

text \<open>\<open>gjson.Get\<close> on a path of member names: the value there, if any.\<close>

fun jget :: "string list \<Rightarrow> json \<Rightarrow> json option" where
  "jget [] j = Some j"
| "jget (k # ks) (JObj kvs) = (case map_of kvs k of None \<Rightarrow> None | Some sub \<Rightarrow> jget ks sub)"
| "jget (k # ks) j = None"

text \<open>Whether a document is an object, and whether it is an array.\<close>

definition is_object :: "json \<Rightarrow> bool" where
  "is_object j = (case j of JObj kvs \<Rightarrow> True | _ \<Rightarrow> False)"

definition is_array :: "json \<Rightarrow> bool" where
  "is_array j = (case j of JArr xs \<Rightarrow> True | _ \<Rightarrow> False)"

section \<open>The executors\<close>

text \<open>
  The SDK's request, options, response and stream chunk, with the fields the executors
  under study read or write (the Continue executor fills \<open>Data\<close> and \<open>RequestID\<close> of a
  chunk, the others \<open>Payload\<close> and \<open>Err\<close>).
\<close>

record Request =
  Model :: string
  Payload :: bytes
  RequestMetadata :: "string \<rightharpoonup> anyval"

record Options =
  SourceFormat :: string
  OriginalRequest :: bytes

record Response =
  ResponsePayload :: bytes

record StreamChunk =
  ChunkPayload :: bytes
  ChunkErr :: goerr
  ChunkData :: bytes
  ChunkRequestID :: string

record http_request =
  Method :: string
  URL :: string
  Header :: "(string \<times> string) list"
  RequestBody :: json

definition Header_Set :: "string \<Rightarrow> string \<Rightarrow> http_request \<Rightarrow> http_request" where
  "Header_Set k v r = r\<lparr>Header := (k, v) # filter (\<lambda>kv. fst kv \<noteq> k) (Header r)\<rparr>"

text \<open>
  An upstream response: status and body as before, and for the streaming loops the run
  of \<open>bufio.Scanner\<close> over the body, given by the lines \<open>Scan\<close> yields and the error
  \<open>scanner.Err()\<close> reports once \<open>Scan\<close> has returned false (\<open>Nil\<close> at a clean end).
\<close>

record upstream_response = http_response +
  Lines :: "bytes list"
  ScanErr :: goerr

text \<open>
  Modelled from the spec: the usage triple \<open>{prompt_tokens, completion_tokens,
  total_tokens}\<close> of the usage reporter, whose type is declared outside the files under
  study.
\<close>

record usage_Detail =
  InputTokens :: int
  OutputTokens :: int
  TotalTokens :: int

text \<open>
  The usage reporter is declared outside the files under study. A run records the calls
  made on it, in order. \<open>TrackFailure err\<close> is the deferred \<open>reporter.trackFailure(ctx,
  &err)\<close>, with the error the function returns.
\<close>

datatype usage_call =
    Publish usage_Detail
  | PublishFailure
  | EnsurePublished
  | MarkCancelled
  | TrackFailure goerr

text \<open>
  What the executors reach outside themselves: the translator registry of the SDK, the
  payload configuration, the HTTP client, the usage parsers and the UUID source. The
  state of the streaming translator (\<open>param\<close>) has a type of the translator's choosing.
  \<open>NewRequestWithContext\<close> gives the error of building the request (\<open>Nil\<close> when it is
  built). Logging has no effect on what the functions return and is left out.
\<close>

record 'st exec_world =
  TranslateRequest :: "string \<Rightarrow> string \<Rightarrow> string \<Rightarrow> bytes \<Rightarrow> bool \<Rightarrow> json"
  TranslateNonStream :: "string \<Rightarrow> string \<Rightarrow> string \<Rightarrow> bytes \<Rightarrow> json \<Rightarrow> bytes \<Rightarrow> string"
  TranslateStream :: "string \<Rightarrow> string \<Rightarrow> string \<Rightarrow> bytes \<Rightarrow> json \<Rightarrow> bytes \<Rightarrow> 'st \<Rightarrow> string list \<times> 'st"
  applyPayloadConfigWithRoot :: "string \<Rightarrow> string \<Rightarrow> string \<Rightarrow> json \<Rightarrow> json \<Rightarrow> json"
  NewRequestWithContext :: "string \<Rightarrow> string \<Rightarrow> json \<Rightarrow> goerr"
  Do :: "http_request \<Rightarrow> goerr + upstream_response"
  parseOpenAIUsage :: "bytes \<Rightarrow> usage_Detail"
  parseOpenAIStreamUsage :: "bytes \<Rightarrow> usage_Detail option"
  TrimSpace :: "bytes \<Rightarrow> bytes"
  NewUUID :: string
  NilParam :: 'st

text \<open>
  What a call of an executor did: the value it returned, the requests it handed to
  \<open>httpClient.Do\<close>, and its calls on the usage reporter. A stream is the sequence of
  chunks the producer goroutine puts on the channel before closing it, with the
  goroutine's own calls on the reporter.
\<close>

record 'a exec_run =
  result :: "goerr + 'a"
  sent :: "http_request list"
  usage :: "usage_call list"

record stream_run =
  chunks :: "StreamChunk list"
  stream_usage :: "usage_call list"

subsection \<open>Continue\<close>

definition continueBaseURL :: string where "continueBaseURL = ''https://api.continue.dev''"
definition continueChatPath :: string where "continueChatPath = ''/v1/chat/completions''"

definition Continue_applyHeaders :: "http_request \<Rightarrow> string \<Rightarrow> http_request" where
  "Continue_applyHeaders r apiToken =
     Header_Set ''Accept'' ''application/json''
       (Header_Set ''Content-Type'' ''application/json''
          (Header_Set ''Authorization'' (''Bearer '' @ apiToken) r))"

definition Continue_normalizeModel :: "string \<Rightarrow> json \<Rightarrow> json" where
  "Continue_normalizeModel model body = SetBytes body [''model''] (JStr model)"

definition Continue_Execute ::
  "continue_world \<Rightarrow> 'st exec_world \<Rightarrow> (string \<rightharpoonup> cachedAPIToken option) \<Rightarrow> gotime \<Rightarrow> Auth option
     \<Rightarrow> Request \<Rightarrow> Options \<Rightarrow> (string \<rightharpoonup> cachedAPIToken option) \<times> Response exec_run" where
  "Continue_Execute cw w cache now auth req opts =
     (case Continue_ensureAPIToken cw cache now auth of
        (cache', Inl errToken) \<Rightarrow> (cache', \<lparr>result = Inl errToken, sent = [], usage = []\<rparr>)
      | (cache', Inr apiToken) \<Rightarrow>
          (let from = SourceFormat opts;
               to = ''openai'';
               originalPayload =
                 (if length (OriginalRequest opts) > 0 then OriginalRequest opts else Payload req);
               originalTranslated = TranslateRequest w from to (Model req) originalPayload False;
               body0 = TranslateRequest w from to (Model req) (Payload req) False;
               body1 = Continue_normalizeModel (Model req) body0;
               body2 = applyPayloadConfigWithRoot w (Model req) to [] body1 originalTranslated;
               body = SetBytes body2 [''stream''] (JBool False);
               url = continueBaseURL @ continueChatPath;
               err = NewRequestWithContext w ''POST'' url body
           in if err \<noteq> Nil then (cache', \<lparr>result = Inl err, sent = [], usage = [TrackFailure err]\<rparr>)
              else
                (let httpReq = Continue_applyHeaders
                       \<lparr>Method = ''POST'', URL = url, Header = [], RequestBody = body\<rparr> apiToken
                 in case Do w httpReq of
                      Inl errDo \<Rightarrow>
                        (cache', \<lparr>result = Inl errDo, sent = [httpReq], usage = [TrackFailure errDo]\<rparr>)
                    | Inr httpResp \<Rightarrow>
                        if \<not> isHTTPSuccess (StatusCode httpResp) then
                          (cache',
                           \<lparr>result = Inl (StatusErr (StatusCode httpResp) (Body httpResp)),
                            sent = [httpReq],
                            usage = [TrackFailure (StatusErr (StatusCode httpResp) (Body httpResp))]\<rparr>)
                        else if ReadErr httpResp \<noteq> Nil then
                          (cache',
                           \<lparr>result = Inl (ReadErr httpResp), sent = [httpReq],
                            usage = [TrackFailure (ReadErr httpResp)]\<rparr>)
                        else
                          (let detail = parseOpenAIUsage w (Body httpResp);
                               converted = TranslateNonStream w to from (Model req)
                                 (OriginalRequest opts) body (Body httpResp)
                           in (cache',
                               \<lparr>result = Inr \<lparr>ResponsePayload = converted\<rparr>, sent = [httpReq],
                                usage = (if TotalTokens detail > 0 then [Publish detail] else [])
                                  @ [EnsurePublished, TrackFailure Nil]\<rparr>)))))"

text \<open>
  The loop of \<open>ContinueExecutor.streamResponse\<close> over the scanner's lines. \<open>ctxDone i\<close>
  says whether the context is done when line \<open>i\<close> has been scanned; cancellation is
  observed between lines. The result is the chunks sent and whether the loop was left
  on a cancellation.
\<close>

fun Continue_streamLines ::
  "'st exec_world \<Rightarrow> (nat \<Rightarrow> bool) \<Rightarrow> string \<Rightarrow> string \<Rightarrow> string \<Rightarrow> bytes \<Rightarrow> json \<Rightarrow> string
     \<Rightarrow> nat \<Rightarrow> bytes list \<Rightarrow> 'st \<Rightarrow> StreamChunk list \<times> bool" where
  "Continue_streamLines w ctxDone from to model originalRequest body requestID i [] param =
     ([], False)"
| "Continue_streamLines w ctxDone from to model originalRequest body requestID i (line # rest) param =
     (if ctxDone i then ([], True)
      else
        (case TranslateStream w to from model originalRequest body line param of
           (parts, param') \<Rightarrow>
             (case Continue_streamLines w ctxDone from to model originalRequest body requestID
                     (Suc i) rest param' of
                (cs, cancelled) \<Rightarrow>
                  (map (\<lambda>part. \<lparr>ChunkPayload = [], ChunkErr = Nil, ChunkData = part,
                                 ChunkRequestID = requestID\<rparr>) parts @ cs,
                   cancelled))))"

text \<open>
  \<open>ContinueExecutor.streamResponse\<close>: after the loop, an error of the scanner is logged
  and nothing else; \<open>ensurePublished\<close> follows in either case.
\<close>

definition Continue_streamResponse ::
  "'st exec_world \<Rightarrow> (nat \<Rightarrow> bool) \<Rightarrow> upstream_response \<Rightarrow> string \<Rightarrow> string \<Rightarrow> string \<Rightarrow> bytes
     \<Rightarrow> json \<Rightarrow> stream_run" where
  "Continue_streamResponse w ctxDone httpResp from to model originalRequest body =
     (case Continue_streamLines w ctxDone from to model originalRequest body (NewUUID w) 0
             (Lines httpResp) (NilParam w) of
        (cs, cancelled) \<Rightarrow>
          if cancelled then \<lparr>chunks = cs, stream_usage = [MarkCancelled, EnsurePublished]\<rparr>
          else \<lparr>chunks = cs, stream_usage = [EnsurePublished]\<rparr>)"

definition Continue_ExecuteStream ::
  "continue_world \<Rightarrow> 'st exec_world \<Rightarrow> (nat \<Rightarrow> bool) \<Rightarrow> (string \<rightharpoonup> cachedAPIToken option) \<Rightarrow> gotime
     \<Rightarrow> Auth option \<Rightarrow> Request \<Rightarrow> Options
     \<Rightarrow> (string \<rightharpoonup> cachedAPIToken option) \<times> stream_run exec_run" where
  "Continue_ExecuteStream cw w ctxDone cache now auth req opts =
     (case Continue_ensureAPIToken cw cache now auth of
        (cache', Inl errToken) \<Rightarrow> (cache', \<lparr>result = Inl errToken, sent = [], usage = []\<rparr>)
      | (cache', Inr apiToken) \<Rightarrow>
          (let from = SourceFormat opts;
               to = ''openai'';
               originalPayload =
                 (if length (OriginalRequest opts) > 0 then OriginalRequest opts else Payload req);
               originalTranslated = TranslateRequest w from to (Model req) originalPayload True;
               body0 = TranslateRequest w from to (Model req) (Payload req) True;
               body1 = Continue_normalizeModel (Model req) body0;
               body2 = applyPayloadConfigWithRoot w (Model req) to [] body1 originalTranslated;
               body = SetBytes body2 [''stream''] (JBool True);
               url = continueBaseURL @ continueChatPath;
               err = NewRequestWithContext w ''POST'' url body
           in if err \<noteq> Nil then (cache', \<lparr>result = Inl err, sent = [], usage = [TrackFailure err]\<rparr>)
              else
                (let httpReq = Continue_applyHeaders
                       \<lparr>Method = ''POST'', URL = url, Header = [], RequestBody = body\<rparr> apiToken
                 in case Do w httpReq of
                      Inl errDo \<Rightarrow>
                        (cache', \<lparr>result = Inl errDo, sent = [httpReq], usage = [TrackFailure errDo]\<rparr>)
                    | Inr httpResp \<Rightarrow>
                        if \<not> isHTTPSuccess (StatusCode httpResp) then
                          (cache',
                           \<lparr>result = Inl (StatusErr (StatusCode httpResp) (Body httpResp)),
                            sent = [httpReq],
                            usage = [TrackFailure (StatusErr (StatusCode httpResp) (Body httpResp))]\<rparr>)
                        else
                          (cache',
                           \<lparr>result = Inr (Continue_streamResponse w ctxDone httpResp from to
                                            (Model req) (OriginalRequest opts) body),
                            sent = [httpReq], usage = [TrackFailure Nil]\<rparr>))))"

subsection \<open>Windsurf\<close>

definition windsurfBaseURL :: string where "windsurfBaseURL = ''https://proxy.codeium.com''"
definition windsurfChatPath :: string where "windsurfChatPath = ''/v1/chat/completions''"
definition windsurfUserAgent :: string where "windsurfUserAgent = ''Windsurf-CLI/1.0''"

text \<open>
  Modelled from the spec: \<open>dataTag\<close>, the prefix of an SSE data line, is a variable of the
  executor package declared outside the files under study; the loop drops five bytes
  after testing for it.
\<close>

definition dataTag :: bytes where "dataTag = ''data:''"

definition Windsurf_applyHeaders :: "'st exec_world \<Rightarrow> http_request \<Rightarrow> string \<Rightarrow> http_request" where
  "Windsurf_applyHeaders w r apiToken =
     Header_Set ''X-Request-Id'' (NewUUID w)
       (Header_Set ''User-Agent'' windsurfUserAgent
          (Header_Set ''Accept'' ''application/json''
             (Header_Set ''Authorization'' (''Bearer '' @ apiToken)
                (Header_Set ''Content-Type'' ''application/json'' r))))"

definition Windsurf_normalizeModel :: "string \<Rightarrow> json \<Rightarrow> json" where
  "Windsurf_normalizeModel model body = body"

definition Windsurf_Execute ::
  "((string \<rightharpoonup> anyval) \<Rightarrow> string \<Rightarrow> string) \<Rightarrow> 'st exec_world \<Rightarrow> (string \<rightharpoonup> cachedWindsurfToken)
     \<Rightarrow> gotime \<Rightarrow> Auth option \<Rightarrow> Request \<Rightarrow> Options
     \<Rightarrow> (string \<rightharpoonup> cachedWindsurfToken) \<times> Response exec_run" where
  "Windsurf_Execute metaStringValue w cache now auth req opts =
     (case Windsurf_ensureAPIToken metaStringValue cache now auth of
        (cache', Inl errToken) \<Rightarrow> (cache', \<lparr>result = Inl errToken, sent = [], usage = []\<rparr>)
      | (cache', Inr apiToken) \<Rightarrow>
          (let from = SourceFormat opts;
               to = ''openai'';
               originalPayload =
                 (if length (OriginalRequest opts) > 0 then OriginalRequest opts else Payload req);
               originalTranslated = TranslateRequest w from to (Model req) originalPayload False;
               body0 = TranslateRequest w from to (Model req) (Payload req) False;
               body1 = Windsurf_normalizeModel (Model req) body0;
               body2 = applyPayloadConfigWithRoot w (Model req) to [] body1 originalTranslated;
               body = SetBytes body2 [''stream''] (JBool False);
               url = windsurfBaseURL @ windsurfChatPath;
               err = NewRequestWithContext w ''POST'' url body
           in if err \<noteq> Nil then (cache', \<lparr>result = Inl err, sent = [], usage = [TrackFailure err]\<rparr>)
              else
                (let httpReq = Windsurf_applyHeaders w
                       \<lparr>Method = ''POST'', URL = url, Header = [], RequestBody = body\<rparr> apiToken
                 in case Do w httpReq of
                      Inl errDo \<Rightarrow>
                        (cache', \<lparr>result = Inl errDo, sent = [httpReq], usage = [TrackFailure errDo]\<rparr>)
                    | Inr httpResp \<Rightarrow>
                        if \<not> isHTTPSuccess (StatusCode httpResp) then
                          (cache',
                           \<lparr>result = Inl (StatusErr (StatusCode httpResp) (Body httpResp)),
                            sent = [httpReq],
                            usage = [TrackFailure (StatusErr (StatusCode httpResp) (Body httpResp))]\<rparr>)
                        else if ReadErr httpResp \<noteq> Nil then
                          (cache',
                           \<lparr>result = Inl (ReadErr httpResp), sent = [httpReq],
                            usage = [TrackFailure (ReadErr httpResp)]\<rparr>)
                        else
                          (let detail = parseOpenAIUsage w (Body httpResp);
                               converted = TranslateNonStream w to from (Model req)
                                 (OriginalRequest opts) body (Body httpResp)
                           in (cache',
                               \<lparr>result = Inr \<lparr>ResponsePayload = converted\<rparr>, sent = [httpReq],
                                usage = (if TotalTokens detail > 0 then [Publish detail] else [])
                                  @ [EnsurePublished, TrackFailure Nil]\<rparr>)))))"

text \<open>
  The loop of the producer goroutine of \<open>WindsurfExecutor.ExecuteStream\<close> over the
  scanner's lines: the chunks sent and the usage published.
\<close>

fun Windsurf_streamLines ::
  "'st exec_world \<Rightarrow> string \<Rightarrow> string \<Rightarrow> string \<Rightarrow> bytes \<Rightarrow> json \<Rightarrow> bytes list \<Rightarrow> 'st
     \<Rightarrow> StreamChunk list \<times> usage_call list" where
  "Windsurf_streamLines w from to model originalRequest body [] param = ([], [])"
| "Windsurf_streamLines w from to model originalRequest body (line # rest) param =
     (if take (length dataTag) line = dataTag \<and> TrimSpace w (drop 5 line) = ''[DONE]'' then
        Windsurf_streamLines w from to model originalRequest body rest param
      else
        (case TranslateStream w to from model originalRequest body line param of
           (cs, param') \<Rightarrow>
             (case Windsurf_streamLines w from to model originalRequest body rest param' of
                (more_chunks, more_usage) \<Rightarrow>
                  (map (\<lambda>c. \<lparr>ChunkPayload = c, ChunkErr = Nil, ChunkData = [],
                              ChunkRequestID = []\<rparr>) cs @ more_chunks,
                   (if take (length dataTag) line = dataTag then
                      (case parseOpenAIStreamUsage w line of
                         Some detail \<Rightarrow> [Publish detail]
                       | None \<Rightarrow> [])
                    else []) @ more_usage))))"

definition Windsurf_streamResponse ::
  "'st exec_world \<Rightarrow> upstream_response \<Rightarrow> string \<Rightarrow> string \<Rightarrow> string \<Rightarrow> bytes \<Rightarrow> json \<Rightarrow> stream_run" where
  "Windsurf_streamResponse w httpResp from to model originalRequest body =
     (case Windsurf_streamLines w from to model originalRequest body (Lines httpResp) (NilParam w) of
        (cs, published) \<Rightarrow>
          if ScanErr httpResp \<noteq> Nil then
            \<lparr>chunks = cs @ [\<lparr>ChunkPayload = [], ChunkErr = ScanErr httpResp, ChunkData = [],
                              ChunkRequestID = []\<rparr>],
             stream_usage = published @ [PublishFailure]\<rparr>
          else \<lparr>chunks = cs, stream_usage = published @ [EnsurePublished]\<rparr>)"

definition Windsurf_ExecuteStream ::
  "((string \<rightharpoonup> anyval) \<Rightarrow> string \<Rightarrow> string) \<Rightarrow> 'st exec_world \<Rightarrow> (string \<rightharpoonup> cachedWindsurfToken)
     \<Rightarrow> gotime \<Rightarrow> Auth option \<Rightarrow> Request \<Rightarrow> Options
     \<Rightarrow> (string \<rightharpoonup> cachedWindsurfToken) \<times> stream_run exec_run" where
  "Windsurf_ExecuteStream metaStringValue w cache now auth req opts =
     (case Windsurf_ensureAPIToken metaStringValue cache now auth of
        (cache', Inl errToken) \<Rightarrow> (cache', \<lparr>result = Inl errToken, sent = [], usage = []\<rparr>)
      | (cache', Inr apiToken) \<Rightarrow>
          (let from = SourceFormat opts;
               to = ''openai'';
               originalPayload =
                 (if length (OriginalRequest opts) > 0 then OriginalRequest opts else Payload req);
               originalTranslated = TranslateRequest w from to (Model req) originalPayload False;
               body0 = TranslateRequest w from to (Model req) (Payload req) True;
               body1 = Windsurf_normalizeModel (Model req) body0;
               body2 = applyPayloadConfigWithRoot w (Model req) to [] body1 originalTranslated;
               body3 = SetBytes body2 [''stream''] (JBool True);
               body = SetBytes body3 [''stream_options'', ''include_usage''] (JBool True);
               url = windsurfBaseURL @ windsurfChatPath;
               err = NewRequestWithContext w ''POST'' url body
           in if err \<noteq> Nil then (cache', \<lparr>result = Inl err, sent = [], usage = [TrackFailure err]\<rparr>)
              else
                (let httpReq = Windsurf_applyHeaders w
                       \<lparr>Method = ''POST'', URL = url, Header = [], RequestBody = body\<rparr> apiToken
                 in case Do w httpReq of
                      Inl errDo \<Rightarrow>
                        (cache', \<lparr>result = Inl errDo, sent = [httpReq], usage = [TrackFailure errDo]\<rparr>)
                    | Inr httpResp \<Rightarrow>
                        if \<not> isHTTPSuccess (StatusCode httpResp) then
                          (if ReadErr httpResp \<noteq> Nil then
                             (cache',
                              \<lparr>result = Inl (ReadErr httpResp), sent = [httpReq],
                               usage = [TrackFailure (ReadErr httpResp)]\<rparr>)
                           else
                             (cache',
                              \<lparr>result = Inl (StatusErr (StatusCode httpResp) (Body httpResp)),
                               sent = [httpReq],
                               usage = [TrackFailure (StatusErr (StatusCode httpResp) (Body httpResp))]\<rparr>))
                        else
                          (cache',
                           \<lparr>result = Inr (Windsurf_streamResponse w httpResp from to (Model req)
                                            (OriginalRequest opts) body),
                            sent = [httpReq], usage = [TrackFailure Nil]\<rparr>))))"

text \<open>
  The body that \<open>ExecuteStream\<close> of Windsurf and of Continue has built when the payload
  configuration has been applied, before the stream flags are set on it.
\<close>

definition Windsurf_streamPayload :: "'st exec_world \<Rightarrow> Request \<Rightarrow> Options \<Rightarrow> json" where
  "Windsurf_streamPayload w req opts =
     applyPayloadConfigWithRoot w (Model req) ''openai'' []
       (Windsurf_normalizeModel (Model req)
          (TranslateRequest w (SourceFormat opts) ''openai'' (Model req) (Payload req) True))
       (TranslateRequest w (SourceFormat opts) ''openai'' (Model req)
          (if length (OriginalRequest opts) > 0 then OriginalRequest opts else Payload req) False)"

definition Continue_streamPayload :: "'st exec_world \<Rightarrow> Request \<Rightarrow> Options \<Rightarrow> json" where
  "Continue_streamPayload w req opts =
     applyPayloadConfigWithRoot w (Model req) ''openai'' []
       (Continue_normalizeModel (Model req)
          (TranslateRequest w (SourceFormat opts) ''openai'' (Model req) (Payload req) True))
       (TranslateRequest w (SourceFormat opts) ''openai'' (Model req)
          (if length (OriginalRequest opts) > 0 then OriginalRequest opts else Payload req) True)"

subsection \<open>Bolt\<close>

text \<open>
  The Bolt executor prepares its request from the credentials, the model override, the
  translated payload, the WebContainer context, the thinking configuration, the payload
  configuration and the beta headers. That preparation is a function of the auth, the
  request, the options and the two stream flags (the one given to the translator and
  the one given to \<open>applyBoltHeaders\<close>); it is the collaborator \<open>BoltRequest\<close> here, and
  what follows it in \<open>Execute\<close> and \<open>ExecuteStream\<close> is written out.
  \<open>decodeResponseBody\<close> undoes the content encoding of a response, or fails.
\<close>

record 'st bolt_world = "'st exec_world" +
  BoltRequest :: "Auth option \<Rightarrow> Request \<Rightarrow> Options \<Rightarrow> bool \<Rightarrow> bool \<Rightarrow> http_request"
  decodeResponseBody :: "upstream_response \<Rightarrow> goerr + upstream_response"
  parseClaudeUsage :: "bytes \<Rightarrow> usage_Detail"
  parseClaudeStreamUsage :: "bytes \<Rightarrow> usage_Detail option"

text \<open>\<open>bytes.Split(data, sep)\<close> for a separator of one byte.\<close>

fun splitOn :: "char \<Rightarrow> bytes \<Rightarrow> bytes list" where
  "splitOn c [] = [[]]"
| "splitOn c (x # xs) =
     (if x = c then [] # splitOn c xs
      else (case splitOn c xs of [] \<Rightarrow> [[x]] | y # ys \<Rightarrow> (x # y) # ys))"

definition newline :: char where
  "newline = CHR 0x0A"

definition Bolt_Execute :: "'st bolt_world \<Rightarrow> Auth option \<Rightarrow> Request \<Rightarrow> Options \<Rightarrow> Response exec_run" where
  "Bolt_Execute w auth req opts =
     (let from = SourceFormat opts;
          to = ''claude'';
          stream = (from \<noteq> to);
          httpReq = BoltRequest w auth req opts stream False;
          body = RequestBody httpReq;
          err = NewRequestWithContext w ''POST'' (URL httpReq) body
      in if err \<noteq> Nil then \<lparr>result = Inl err, sent = [], usage = [TrackFailure err]\<rparr>
         else
           (case Do w httpReq of
              Inl errDo \<Rightarrow> \<lparr>result = Inl errDo, sent = [httpReq], usage = [TrackFailure errDo]\<rparr>
            | Inr httpResp \<Rightarrow>
                if StatusCode httpResp < 200 \<or> StatusCode httpResp \<ge> 300 then
                  \<lparr>result = Inl (StatusErr (StatusCode httpResp) (Body httpResp)), sent = [httpReq],
                   usage = [TrackFailure (StatusErr (StatusCode httpResp) (Body httpResp))]\<rparr>
                else
                  (case decodeResponseBody w httpResp of
                     Inl errDecode \<Rightarrow>
                       \<lparr>result = Inl errDecode, sent = [httpReq], usage = [TrackFailure errDecode]\<rparr>
                   | Inr decodedBody \<Rightarrow>
                       if ReadErr decodedBody \<noteq> Nil then
                         \<lparr>result = Inl (ReadErr decodedBody), sent = [httpReq],
                          usage = [TrackFailure (ReadErr decodedBody)]\<rparr>
                       else
                         (let data = Body decodedBody;
                              published =
                                (if stream then
                                   concat (map (\<lambda>line. case parseClaudeStreamUsage w line of
                                                          Some detail \<Rightarrow> [Publish detail]
                                                        | None \<Rightarrow> [])
                                             (splitOn newline data))
                                 else [Publish (parseClaudeUsage w data)]);
                              out = TranslateNonStream w to from (Model req) (OriginalRequest opts)
                                      body data
                          in \<lparr>result = Inr \<lparr>ResponsePayload = out\<rparr>, sent = [httpReq],
                              usage = published @ [TrackFailure Nil]\<rparr>))))"

text \<open>
  The two loops of the producer goroutine of \<open>BoltExecutor.ExecuteStream\<close>: the direct
  forwarding of lines when the client speaks the upstream dialect, and the translating
  loop otherwise.
\<close>

fun Bolt_forwardLines :: "'st bolt_world \<Rightarrow> bytes list \<Rightarrow> StreamChunk list \<times> usage_call list" where
  "Bolt_forwardLines w [] = ([], [])"
| "Bolt_forwardLines w (line # rest) =
     (case Bolt_forwardLines w rest of
        (more_chunks, more_usage) \<Rightarrow>
          (\<lparr>ChunkPayload = line @ [newline], ChunkErr = Nil, ChunkData = [], ChunkRequestID = []\<rparr>
             # more_chunks,
           (case parseClaudeStreamUsage w line of Some detail \<Rightarrow> [Publish detail] | None \<Rightarrow> [])
             @ more_usage))"

fun Bolt_translateLines ::
  "'st bolt_world \<Rightarrow> string \<Rightarrow> string \<Rightarrow> string \<Rightarrow> bytes \<Rightarrow> json \<Rightarrow> bytes list \<Rightarrow> 'st
     \<Rightarrow> StreamChunk list \<times> usage_call list" where
  "Bolt_translateLines w from to model originalRequest body [] param = ([], [])"
| "Bolt_translateLines w from to model originalRequest body (line # rest) param =
     (case TranslateStream w to from model originalRequest body line param of
        (cs, param') \<Rightarrow>
          (case Bolt_translateLines w from to model originalRequest body rest param' of
             (more_chunks, more_usage) \<Rightarrow>
               (map (\<lambda>c. \<lparr>ChunkPayload = c, ChunkErr = Nil, ChunkData = [], ChunkRequestID = []\<rparr>) cs
                  @ more_chunks,
                (case parseClaudeStreamUsage w line of Some detail \<Rightarrow> [Publish detail] | None \<Rightarrow> [])
                  @ more_usage)))"

definition Bolt_streamResponse ::
  "'st bolt_world \<Rightarrow> upstream_response \<Rightarrow> string \<Rightarrow> string \<Rightarrow> string \<Rightarrow> bytes \<Rightarrow> json \<Rightarrow> stream_run" where
  "Bolt_streamResponse w decodedBody from to model originalRequest body =
     (case (if from = to then Bolt_forwardLines w (Lines decodedBody)
            else Bolt_translateLines w from to model originalRequest body (Lines decodedBody)
                   (NilParam w)) of
        (cs, published) \<Rightarrow>
          if ScanErr decodedBody \<noteq> Nil then
            \<lparr>chunks = cs @ [\<lparr>ChunkPayload = [], ChunkErr = ScanErr decodedBody, ChunkData = [],
                              ChunkRequestID = []\<rparr>],
             stream_usage = published @ [PublishFailure]\<rparr>
          else \<lparr>chunks = cs, stream_usage = published\<rparr>)"

definition Bolt_ExecuteStream ::
  "'st bolt_world \<Rightarrow> Auth option \<Rightarrow> Request \<Rightarrow> Options \<Rightarrow> stream_run exec_run" where
  "Bolt_ExecuteStream w auth req opts =
     (let from = SourceFormat opts;
          to = ''claude'';
          httpReq = BoltRequest w auth req opts True True;
          body = RequestBody httpReq;
          err = NewRequestWithContext w ''POST'' (URL httpReq) body
      in if err \<noteq> Nil then \<lparr>result = Inl err, sent = [], usage = [TrackFailure err]\<rparr>
         else
           (case Do w httpReq of
              Inl errDo \<Rightarrow> \<lparr>result = Inl errDo, sent = [httpReq], usage = [TrackFailure errDo]\<rparr>
            | Inr httpResp \<Rightarrow>
                if StatusCode httpResp < 200 \<or> StatusCode httpResp \<ge> 300 then
                  \<lparr>result = Inl (StatusErr (StatusCode httpResp) (Body httpResp)), sent = [httpReq],
                   usage = [TrackFailure (StatusErr (StatusCode httpResp) (Body httpResp))]\<rparr>
                else
                  (case decodeResponseBody w httpResp of
                     Inl errDecode \<Rightarrow>
                       \<lparr>result = Inl errDecode, sent = [httpReq], usage = [TrackFailure errDecode]\<rparr>
                   | Inr decodedBody \<Rightarrow>
                       \<lparr>result = Inr (Bolt_streamResponse w decodedBody from to (Model req)
                                        (OriginalRequest opts) body),
                        sent = [httpReq], usage = [TrackFailure Nil]\<rparr>)))"

section \<open>Concrete inputs\<close>

text \<open>
  A Continue account with a stored OAuth access token, an exchange endpoint that
  answers with the token \<open>fresh\<close> and a given \<open>expires_at\<close>, and caches that hold the token
  \<open>cached\<close> expiring a given number of minutes after the instant 0.
\<close>

definition demo_storage :: ContinueTokenStorage where
  "demo_storage = \<lparr>AccessToken = ''oauth-at'', TokenType = ''bearer'', Scope = ''user:email'',
     StorageExpiresAt = [], Username = ''alice'', StorageType = ''continue''\<rparr>"

definition demo_continue_world :: "int \<Rightarrow> continue_world" where
  "demo_continue_world upstreamExpiry =
     \<lparr>LoadStorage = (\<lambda>a. Inr demo_storage),
      ApiTokenGet = (\<lambda>t. Reply \<lparr>StatusCode = 200, Body = ''{}'', ReadErr = Nil\<rparr>),
      ApiTokenUnmarshal = (\<lambda>b. Inr \<lparr>Token = ''fresh'', ExpiresAt = upstreamExpiry\<rparr>)\<rparr>"

definition demo_auth :: Auth where
  "demo_auth = \<lparr>ID = ''continue-alice.json'', Label = ''alice'', Provider = ''continue'',
     Attributes = Map.empty, Metadata = [''access_token'' \<mapsto> AnyString ''at'']\<rparr>"

definition demo_cached :: "int \<Rightarrow> cachedAPIToken" where
  "demo_cached mins = \<lparr>token = ''cached'', expiresAt = mins * Minute\<rparr>"

definition demo_cache :: "int \<Rightarrow> (string \<rightharpoonup> cachedAPIToken option)" where
  "demo_cache mins = [''continue-alice.json'' \<mapsto> Some (demo_cached mins)]"

text \<open>A reading of the metadata map: the string under the key, or the empty string.\<close>

definition demo_metaStringValue :: "(string \<rightharpoonup> anyval) \<Rightarrow> string \<Rightarrow> string" where
  "demo_metaStringValue m k = (case m k of Some (AnyString s) \<Rightarrow> s | _ \<Rightarrow> [])"

definition demo_wcached :: "int \<Rightarrow> cachedWindsurfToken" where
  "demo_wcached mins = \<lparr>wtoken = ''at'', wexpiresAt = mins * Minute\<rparr>"

definition demo_wcache :: "int \<Rightarrow> (string \<rightharpoonup> cachedWindsurfToken)" where
  "demo_wcache mins = [''at'' \<mapsto> demo_wcached mins]"

text \<open>
  Device flow: a decoder that knows a handful of bodies, replies with a status and a
  body, device-code responses with a given \<open>expires_in\<close> and \<open>interval\<close>, and three
  endpoints: one that answers pending, then slow down, then the token; one that always
  answers with status 200 and a body holding both an error and an access token; and one
  that always answers pending.
\<close>

definition demo_unmarshal :: "bytes \<Rightarrow> goerr + oauthResp" where
  "demo_unmarshal b =
     (if b = ''{error:authorization_pending}'' then
        Inr \<lparr>Error = ''authorization_pending'', ErrorDescription = [], RespAccessToken = [],
             RespTokenType = [], RespScope = []\<rparr>
      else if b = ''{error:slow_down}'' then
        Inr \<lparr>Error = ''slow_down'', ErrorDescription = [], RespAccessToken = [],
             RespTokenType = [], RespScope = []\<rparr>
      else if b = ''{error:expired_token}'' then
        Inr \<lparr>Error = ''expired_token'', ErrorDescription = [], RespAccessToken = [],
             RespTokenType = [], RespScope = []\<rparr>
      else if b = ''{error:access_denied}'' then
        Inr \<lparr>Error = ''access_denied'', ErrorDescription = [], RespAccessToken = [],
             RespTokenType = [], RespScope = []\<rparr>
      else if b = ''{access_token:at,token_type:bearer,scope:user}'' then
        Inr \<lparr>Error = [], ErrorDescription = [], RespAccessToken = ''at'',
             RespTokenType = ''bearer'', RespScope = ''user''\<rparr>
      else if b = ''{error:server_error,access_token:at}'' then
        Inr \<lparr>Error = ''server_error'', ErrorDescription = [], RespAccessToken = ''at'',
             RespTokenType = [], RespScope = []\<rparr>
      else if b = ''{error:invalid_grant,error_description:grant revoked by upstream}'' then
        Inr \<lparr>Error = ''invalid_grant'', ErrorDescription = ''grant revoked by upstream'',
             RespAccessToken = [], RespTokenType = [], RespScope = []\<rparr>
      else Inl (Plain ''invalid character''))"

definition demo_reply :: "int \<Rightarrow> bytes \<Rightarrow> http_result" where
  "demo_reply status b = Reply \<lparr>StatusCode = status, Body = b, ReadErr = Nil\<rparr>"

definition demo_dc :: "int \<Rightarrow> int \<Rightarrow> DeviceCodeResponse" where
  "demo_dc expires_in interval =
     \<lparr>DeviceCode = ''dc'', UserCode = ''ABCD-EFGH'', VerificationURI = ''https://x/activate'',
      ExpiresIn = expires_in, Interval = interval\<rparr>"

text \<open>
  Three timings: exchanges of one second, exchanges of seven seconds, and a loop whose
  steps take no time; the clock is read at the instant of the tick in all three.
\<close>

definition demo_timing :: timing where
  "demo_timing = \<lparr>Took = (\<lambda>k. 1000000000), Lag = (\<lambda>k. 0)\<rparr>"

definition demo_slow_timing :: timing where
  "demo_slow_timing = \<lparr>Took = (\<lambda>k. 7000000000), Lag = (\<lambda>k. 0)\<rparr>"

definition demo_instant :: timing where
  "demo_instant = \<lparr>Took = (\<lambda>k. 0), Lag = (\<lambda>k. 0)\<rparr>"

definition demo_script :: "nat \<Rightarrow> http_result" where
  "demo_script k =
     (if k = 0 then demo_reply 400 ''{error:authorization_pending}''
      else if k = 1 then demo_reply 400 ''{error:slow_down}''
      else demo_reply 200 ''{access_token:at,token_type:bearer,scope:user}'')"

definition demo_both :: "nat \<Rightarrow> http_result" where
  "demo_both k = demo_reply 200 ''{error:server_error,access_token:at}''"

definition demo_pending :: "nat \<Rightarrow> http_result" where
  "demo_pending k = demo_reply 400 ''{error:authorization_pending}''"

text \<open>
  Executors: a world whose translators hand back a fixed chat request, whose payload
  configuration changes nothing and whose HTTP client answers every request with a
  given response; a request in the OpenAI dialect; and four upstream responses: a 429
  with its body, a 500 whose body breaks off while it is read, a stream of one line,
  and a stream of one line after which the scanner stops on a line that is too long.
\<close>

definition demo_usage :: usage_Detail where
  "demo_usage = \<lparr>InputTokens = 0, OutputTokens = 0, TotalTokens = 0\<rparr>"

definition demo_exec_world :: "upstream_response \<Rightarrow> unit exec_world" where
  "demo_exec_world resp =
     \<lparr>TranslateRequest =
        (\<lambda>from to model payload stream. JObj [(''model'', JStr model), (''messages'', JArr [])]),
      TranslateNonStream = (\<lambda>to from model originalRequest body data. data),
      TranslateStream =
        (\<lambda>to from model originalRequest body line param. (if line = [] then [] else [line], param)),
      applyPayloadConfigWithRoot = (\<lambda>model to root body original. body),
      NewRequestWithContext = (\<lambda>method url body. Nil),
      Do = (\<lambda>r. Inr resp),
      parseOpenAIUsage = (\<lambda>data. demo_usage),
      parseOpenAIStreamUsage = (\<lambda>line. None),
      TrimSpace = (\<lambda>b. b),
      NewUUID = ''req-1'',
      NilParam = ()\<rparr>"

definition demo_bolt_world :: "upstream_response \<Rightarrow> unit bolt_world" where
  "demo_bolt_world resp =
     \<lparr>TranslateRequest =
        (\<lambda>from to model payload stream. JObj [(''model'', JStr model), (''messages'', JArr [])]),
      TranslateNonStream = (\<lambda>to from model originalRequest body data. data),
      TranslateStream =
        (\<lambda>to from model originalRequest body line param. (if line = [] then [] else [line], param)),
      applyPayloadConfigWithRoot = (\<lambda>model to root body original. body),
      NewRequestWithContext = (\<lambda>method url body. Nil),
      Do = (\<lambda>r. Inr resp),
      parseOpenAIUsage = (\<lambda>data. demo_usage),
      parseOpenAIStreamUsage = (\<lambda>line. None),
      TrimSpace = (\<lambda>b. b),
      NewUUID = ''req-1'',
      NilParam = (),
      BoltRequest =
        (\<lambda>auth req opts translateStream acceptStream.
           \<lparr>Method = ''POST'', URL = ''https://api.anthropic.com/v1/messages'',
            Header = [(''x-api-key'', ''key'')],
            RequestBody = JObj [(''model'', JStr (Model req)), (''messages'', JArr [])]\<rparr>),
      decodeResponseBody = (\<lambda>r. Inr r),
      parseClaudeUsage = (\<lambda>data. demo_usage),
      parseClaudeStreamUsage = (\<lambda>line. None)\<rparr>"

definition demo_request :: Request where
  "demo_request = \<lparr>Model = ''gpt-4'', Payload = ''{}'', RequestMetadata = Map.empty\<rparr>"

definition demo_options :: Options where
  "demo_options = \<lparr>SourceFormat = ''openai'', OriginalRequest = []\<rparr>"

definition demo_error_response :: upstream_response where
  "demo_error_response =
     \<lparr>StatusCode = 429, Body = ''{error:quota exceeded}'', ReadErr = Nil, Lines = [], ScanErr = Nil\<rparr>"

definition demo_broken_error_response :: upstream_response where
  "demo_broken_error_response =
     \<lparr>StatusCode = 500, Body = ''partial'', ReadErr = Plain ''unexpected EOF'', Lines = [],
      ScanErr = Nil\<rparr>"

definition demo_stream_response :: upstream_response where
  "demo_stream_response =
     \<lparr>StatusCode = 200, Body = [], ReadErr = Nil, Lines = [''data: {chunk-1}''], ScanErr = Nil\<rparr>"

definition demo_broken_stream_response :: upstream_response where
  "demo_broken_stream_response =
     \<lparr>StatusCode = 200, Body = [], ReadErr = Nil, Lines = [''data: {chunk-1}''],
      ScanErr = Plain ''bufio.Scanner: token too long''\<rparr>"

section \<open>The token caches: what is proved\<close>

lemmas demo_defs = demo_storage_def demo_continue_world_def demo_auth_def demo_cached_def
  demo_cache_def demo_metaStringValue_def demo_wcached_def demo_wcache_def

lemmas const_defs = tokenExpiryBuffer_def continueTokenCacheTTL_def windsurfTokenTTL_def
  Minute_def Second_def isHTTPSuccess_def

text \<open>
  \<open>time.Unix\<close> at whole seconds: the time built is \<open>sec\<close> seconds after the epoch as long
  as the seconds counter does not wrap around; the method \<open>Unix()\<close> gives \<open>sec\<close> back for
  every \<open>int64\<close>; and a time built from more seconds than the counter holds lies before
  the epoch.
\<close>

lemma Unix_whole: "Unix sec 0 = (wrap64 (sec + unixToInternal) - unixToInternal) * Second"
  by (simp add: Unix_def)



lemma Unix_wrapped_past:
  assumes "9223371974719179007 < sec" and "fitsInt64 sec"
  shows "Unix sec 0 < - 9223372036854775808 * Second"
proof -
  define x where "x = sec + 62135596800 + 9223372036854775808"
  have "x mod 18446744073709551616 = (x - 18446744073709551616) mod 18446744073709551616"
    by simp
  also have "\<dots> = x - 18446744073709551616"
    using assms by (intro mod_pos_pos_trivial) (simp_all add: x_def fitsInt64_def)
  finally have "wrap64 (sec + unixToInternal) = sec + unixToInternal - 18446744073709551616"
    by (simp add: wrap64_def unixToInternal_def x_def)
  then show ?thesis
    using assms by (simp add: Unix_whole fitsInt64_def unixToInternal_def Second_def)
qed

lemma Continue_token_cached:
  assumes "cache (ID a) = Some (Some c)" and "now + tokenExpiryBuffer < expiresAt c"
  shows "Continue_ensureAPIToken w cache now (Some a) = (cache, Inr (token c))"
  using assms by (simp add: Continue_ensureAPIToken_def)

lemma GetContinueAPIToken_nonempty:
  "GetContinueAPIToken g u tok = Inr t \<Longrightarrow> Token t \<noteq> []"
  by (auto simp: GetContinueAPIToken_def split: if_splits http_result.splits sum.splits)

lemma Continue_token_refreshed:
  assumes "\<forall>c. cache (ID a) = Some (Some c) \<longrightarrow> expiresAt c \<le> now + tokenExpiryBuffer"
    and "LoadStorage w a = Inr st"
    and "GetContinueAPIToken (ApiTokenGet w) (ApiTokenUnmarshal w) (AccessToken st) = Inr t"
  shows "Continue_ensureAPIToken w cache now (Some a) =
     (cache(ID a \<mapsto> Some \<lparr>token = Token t, expiresAt =
          (if ExpiresAt t > 0 then Unix (ExpiresAt t) 0 else now + continueTokenCacheTTL)\<rparr>),
      Inr (Token t))"
proof -
  have ne: "Token t \<noteq> []"
    using assms(3) by (rule GetContinueAPIToken_nonempty)
  have stale:
    "(case cache (ID a) of
        Some (Some cached) \<Rightarrow>
          if now < expiresAt cached + (- tokenExpiryBuffer) then Some (token cached) else None
      | _ \<Rightarrow> None) = None"
    using assms(1) by (auto split: option.splits)
  show ?thesis
    unfolding Continue_ensureAPIToken_def using assms(2,3) ne stale by simp
qed

lemma Windsurf_token_cached:
  assumes "metaStringValue (Metadata a) ''access_token'' = k" and "k \<noteq> []"
    and "cache k = Some c" and "now + tokenExpiryBuffer < wexpiresAt c"
  shows "Windsurf_ensureAPIToken metaStringValue cache now (Some a) = (cache, Inr (wtoken c))"
  using assms by (simp add: Windsurf_ensureAPIToken_def)

lemma Windsurf_token_refreshed:
  assumes "metaStringValue (Metadata a) ''access_token'' = k" and "k \<noteq> []"
    and "\<forall>c. cache k = Some c \<longrightarrow> wexpiresAt c \<le> now + tokenExpiryBuffer"
  shows "Windsurf_ensureAPIToken metaStringValue cache now (Some a) =
     (cache(k \<mapsto> \<lparr>wtoken = k, wexpiresAt = now + windsurfTokenTTL\<rparr>), Inr k)"
proof -
  have stale:
    "(case cache k of
        Some cached \<Rightarrow>
          if wexpiresAt cached > now + tokenExpiryBuffer then Some (wtoken cached) else None
      | None \<Rightarrow> None) = None"
    using assms(3) by (auto split: option.splits)
  show ?thesis
    unfolding Windsurf_ensureAPIToken_def using assms(1,2) stale by (simp add: Let_def)
qed

text \<open>
  C1, as the code has it. A cached token that expires 6 minutes from now is returned as
  it is: the cache is left alone and nothing is exchanged. A cached token that expires
  4 minutes from now is inside the 5-minute buffer and is refreshed: the Continue
  executor exchanges the access token again, caches and returns the new token, and the
  Windsurf executor writes a new entry that expires 25 minutes from now.
\<close>

theorem token_cache_buffer:
  "(cache (ID a) = Some (Some c) \<and> expiresAt c = now + 6 * Minute \<longrightarrow>
      Continue_ensureAPIToken w cache now (Some a) = (cache, Inr (token c)))
   \<and> (cache (ID a) = Some (Some c) \<and> expiresAt c = now + 4 * Minute
        \<and> LoadStorage w a = Inr st
        \<and> GetContinueAPIToken (ApiTokenGet w) (ApiTokenUnmarshal w) (AccessToken st) = Inr t \<longrightarrow>
      Continue_ensureAPIToken w cache now (Some a) =
        (cache(ID a \<mapsto> Some \<lparr>token = Token t, expiresAt =
            (if ExpiresAt t > 0 then Unix (ExpiresAt t) 0 else now + continueTokenCacheTTL)\<rparr>),
         Inr (Token t)))
   \<and> (metaStringValue (Metadata a) ''access_token'' = k \<and> k \<noteq> [] \<and> wcache k = Some wc
        \<and> wexpiresAt wc = now + 6 * Minute \<longrightarrow>
      Windsurf_ensureAPIToken metaStringValue wcache now (Some a) = (wcache, Inr (wtoken wc)))
   \<and> (metaStringValue (Metadata a) ''access_token'' = k \<and> k \<noteq> [] \<and> wcache k = Some wc
        \<and> wexpiresAt wc = now + 4 * Minute \<longrightarrow>
      Windsurf_ensureAPIToken metaStringValue wcache now (Some a) =
        (wcache(k \<mapsto> \<lparr>wtoken = k, wexpiresAt = now + windsurfTokenTTL\<rparr>), Inr k))"
proof (intro conjI impI)
  assume "cache (ID a) = Some (Some c) \<and> expiresAt c = now + 6 * Minute"
  then show "Continue_ensureAPIToken w cache now (Some a) = (cache, Inr (token c))"
    by (intro Continue_token_cached) (auto simp: const_defs)
next
  assume h: "cache (ID a) = Some (Some c) \<and> expiresAt c = now + 4 * Minute
        \<and> LoadStorage w a = Inr st
        \<and> GetContinueAPIToken (ApiTokenGet w) (ApiTokenUnmarshal w) (AccessToken st) = Inr t"
  then have "\<forall>c. cache (ID a) = Some (Some c) \<longrightarrow> expiresAt c \<le> now + tokenExpiryBuffer"
    by (auto simp: const_defs)
  with h show "Continue_ensureAPIToken w cache now (Some a) =
        (cache(ID a \<mapsto> Some \<lparr>token = Token t, expiresAt =
            (if ExpiresAt t > 0 then Unix (ExpiresAt t) 0 else now + continueTokenCacheTTL)\<rparr>),
         Inr (Token t))"
    by (intro Continue_token_refreshed) auto
next
  assume "metaStringValue (Metadata a) ''access_token'' = k \<and> k \<noteq> [] \<and> wcache k = Some wc
        \<and> wexpiresAt wc = now + 6 * Minute"
  then show "Windsurf_ensureAPIToken metaStringValue wcache now (Some a) = (wcache, Inr (wtoken wc))"
    by (intro Windsurf_token_cached[where k=k]) (auto simp: const_defs)
next
  assume h: "metaStringValue (Metadata a) ''access_token'' = k \<and> k \<noteq> [] \<and> wcache k = Some wc
        \<and> wexpiresAt wc = now + 4 * Minute"
  then have "\<forall>c. wcache k = Some c \<longrightarrow> wexpiresAt c \<le> now + tokenExpiryBuffer"
    by (auto simp: const_defs)
  with h show "Windsurf_ensureAPIToken metaStringValue wcache now (Some a) =
        (wcache(k \<mapsto> \<lparr>wtoken = k, wexpiresAt = now + windsurfTokenTTL\<rparr>), Inr k)"
    by (intro Windsurf_token_refreshed) auto
qed

theorem token_cache_buffer_witness:
  "Continue_ensureAPIToken (demo_continue_world 0) (demo_cache 6) 0 (Some demo_auth)
     = (demo_cache 6, Inr ''cached'')
   \<and> Continue_ensureAPIToken (demo_continue_world 0) (demo_cache 4) 0 (Some demo_auth)
     = ((demo_cache 4)(''continue-alice.json'' \<mapsto> Some \<lparr>token = ''fresh'', expiresAt = 25 * Minute\<rparr>),
        Inr ''fresh'')
   \<and> Windsurf_ensureAPIToken demo_metaStringValue (demo_wcache 6) 0 (Some demo_auth)
     = (demo_wcache 6, Inr ''at'')
   \<and> Windsurf_ensureAPIToken demo_metaStringValue (demo_wcache 4) 0 (Some demo_auth)
     = ((demo_wcache 4)(''at'' \<mapsto> \<lparr>wtoken = ''at'', wexpiresAt = 25 * Minute\<rparr>), Inr ''at'')"
proof -
  have g: "GetContinueAPIToken (ApiTokenGet (demo_continue_world 0))
      (ApiTokenUnmarshal (demo_continue_world 0)) (AccessToken demo_storage)
      = Inr \<lparr>Token = ''fresh'', ExpiresAt = 0\<rparr>"
    by (simp add: GetContinueAPIToken_def demo_defs const_defs)
  have m: "demo_metaStringValue (Metadata demo_auth) ''access_token'' = ''at''"
    by (simp add: demo_defs)
  note t6 = token_cache_buffer[where cache="demo_cache 6" and a=demo_auth and c="demo_cached 6"
        and now=0 and w="demo_continue_world 0" and metaStringValue=demo_metaStringValue
        and k="''at''" and wcache="demo_wcache 6" and wc="demo_wcached 6"]
  note t4 = token_cache_buffer[where cache="demo_cache 4" and a=demo_auth and c="demo_cached 4"
        and now=0 and w="demo_continue_world 0" and st=demo_storage
        and t="\<lparr>Token = ''fresh'', ExpiresAt = 0\<rparr>" and metaStringValue=demo_metaStringValue
        and k="''at''" and wcache="demo_wcache 4" and wc="demo_wcached 4"]
  show ?thesis
    using t6 t4 g m by (simp add: demo_defs const_defs)
qed

text \<open>
  C1 as the specification words it fails: with the cached token expiring 4 minutes from
  now the Continue executor does not return the cached value, and with 6 minutes it
  does return it, without any exchange.
\<close>

theorem token_cache_counterexample:
  "snd (Continue_ensureAPIToken (demo_continue_world 0) (demo_cache 4) 0 (Some demo_auth))
     \<noteq> Inr (token (demo_cached 4))
   \<and> Continue_ensureAPIToken (demo_continue_world 0) (demo_cache 6) 0 (Some demo_auth)
     = (demo_cache 6, Inr (token (demo_cached 6)))"
  by (simp add: Continue_ensureAPIToken_def GetContinueAPIToken_def demo_defs const_defs)



text \<open>
  An entry whose expiry has wrapped around is stale at every clock reading after the
  epoch: the next call exchanges the access token again.
\<close>

lemma Continue_wrapped_expiry_stale:
  assumes "9223371974719179007 < e" and "fitsInt64 e" and "0 \<le> now"
  shows "\<not> now < Unix e 0 + (- tokenExpiryBuffer)"
  using Unix_wrapped_past[OF assms(1,2)] assms(3)
  by (simp add: tokenExpiryBuffer_def Minute_def Second_def)

text \<open>The invariant of the Windsurf cache: it holds at the start and every call keeps it.\<close>

lemma Windsurf_cache_ok_kept:
  "windsurf_cache_ok cache \<Longrightarrow>
     windsurf_cache_ok (fst (Windsurf_ensureAPIToken metaStringValue cache now auth))"
  by (auto simp: windsurf_cache_ok_def Windsurf_ensureAPIToken_def Let_def
      split: option.splits if_splits)

lemma Windsurf_cache_ok_empty: "windsurf_cache_ok Map.empty"
  by (simp add: windsurf_cache_ok_def)

text \<open>
  C10, as the code has it. \<open>Windsurf_ensureAPIToken\<close> has no collaborator but the reading
  of the metadata, so it makes no network call. Without an auth, or with an empty
  \<open>access_token\<close>, it fails with a \<open>statusErr\<close> of code 401 and leaves the cache alone.
  With a non-empty \<open>access_token\<close> it returns that token; it writes the entry (keyed by
  the token, holding the token, expiring 25 minutes from now) when the cache has no
  entry for the token or one that expires within 5 minutes, and leaves the cache
  unchanged when the entry expires later than that.
\<close>

theorem Windsurf_token_local:
  "Windsurf_ensureAPIToken metaStringValue cache now None = (cache, Inl (StatusErr 401 ''missing auth''))
   \<and> (metaStringValue (Metadata a) ''access_token'' = [] \<longrightarrow>
        Windsurf_ensureAPIToken metaStringValue cache now (Some a)
          = (cache, Inl (StatusErr 401 ''missing windsurf access token'')))
   \<and> (metaStringValue (Metadata a) ''access_token'' = k \<and> k \<noteq> [] \<and> windsurf_cache_ok cache \<longrightarrow>
        snd (Windsurf_ensureAPIToken metaStringValue cache now (Some a)) = Inr k
        \<and> fst (Windsurf_ensureAPIToken metaStringValue cache now (Some a))
            = (case cache k of
                 None \<Rightarrow> cache(k \<mapsto> \<lparr>wtoken = k, wexpiresAt = now + 25 * Minute\<rparr>)
               | Some c \<Rightarrow>
                   if wexpiresAt c > now + 5 * Minute then cache
                   else cache(k \<mapsto> \<lparr>wtoken = k, wexpiresAt = now + 25 * Minute\<rparr>))
        \<and> windsurf_cache_ok (fst (Windsurf_ensureAPIToken metaStringValue cache now (Some a))))"
proof (intro conjI impI)
  show "Windsurf_ensureAPIToken metaStringValue cache now None = (cache, Inl (StatusErr 401 ''missing auth''))"
    by (simp add: Windsurf_ensureAPIToken_def)
next
  assume "metaStringValue (Metadata a) ''access_token'' = []"
  then show "Windsurf_ensureAPIToken metaStringValue cache now (Some a)
          = (cache, Inl (StatusErr 401 ''missing windsurf access token''))"
    by (simp add: Windsurf_ensureAPIToken_def)
next
  assume h: "metaStringValue (Metadata a) ''access_token'' = k \<and> k \<noteq> [] \<and> windsurf_cache_ok cache"
  then show "snd (Windsurf_ensureAPIToken metaStringValue cache now (Some a)) = Inr k"
    by (auto simp: Windsurf_ensureAPIToken_def windsurf_cache_ok_def Let_def split: option.splits)
  from h show "fst (Windsurf_ensureAPIToken metaStringValue cache now (Some a))
            = (case cache k of
                 None \<Rightarrow> cache(k \<mapsto> \<lparr>wtoken = k, wexpiresAt = now + 25 * Minute\<rparr>)
               | Some c \<Rightarrow>
                   if wexpiresAt c > now + 5 * Minute then cache
                   else cache(k \<mapsto> \<lparr>wtoken = k, wexpiresAt = now + 25 * Minute\<rparr>))"
    by (auto simp: Windsurf_ensureAPIToken_def Let_def tokenExpiryBuffer_def windsurfTokenTTL_def
        split: option.splits)
  from h show "windsurf_cache_ok (fst (Windsurf_ensureAPIToken metaStringValue cache now (Some a)))"
    by (simp add: Windsurf_cache_ok_kept)
qed

theorem Windsurf_token_local_witness:
  "Windsurf_ensureAPIToken demo_metaStringValue Map.empty 0
       (Some (demo_auth\<lparr>Metadata := Map.empty\<rparr>))
     = (Map.empty, Inl (StatusErr 401 ''missing windsurf access token''))
   \<and> Windsurf_ensureAPIToken demo_metaStringValue Map.empty 0 (Some demo_auth)
     = ([''at'' \<mapsto> \<lparr>wtoken = ''at'', wexpiresAt = 25 * Minute\<rparr>], Inr ''at'')
   \<and> Windsurf_ensureAPIToken demo_metaStringValue (demo_wcache 10) 0 (Some demo_auth)
     = (demo_wcache 10, Inr ''at'')"
proof -
  have ok: "windsurf_cache_ok (demo_wcache 10)" "windsurf_cache_ok Map.empty"
    by (auto simp: windsurf_cache_ok_def demo_defs split: if_splits)
  note e = Windsurf_token_local[where metaStringValue=demo_metaStringValue and cache=Map.empty
     and now=0 and a="demo_auth\<lparr>Metadata := Map.empty\<rparr>" and k="[]"]
  note m = Windsurf_token_local[where metaStringValue=demo_metaStringValue and cache=Map.empty
     and now=0 and a="demo_auth" and k="''at''"]
  note h = Windsurf_token_local[where metaStringValue=demo_metaStringValue and cache="demo_wcache 10"
     and now=0 and a="demo_auth" and k="''at''"]
  have p: "\<And>x c r. fst x = c \<Longrightarrow> snd x = r \<Longrightarrow> x = (c, r)" by auto
  show ?thesis
    using e m h ok
    by (auto simp: demo_defs const_defs intro!: p)
qed

text \<open>
  C10 as worded fails on a cache hit: the entry found expires 10 minutes from now, the
  call returns the token and the entry still expires 10 minutes from now, not 25.
\<close>

theorem Windsurf_token_counterexample:
  "demo_metaStringValue (Metadata demo_auth) ''access_token'' = ''at''
   \<and> fst (Windsurf_ensureAPIToken demo_metaStringValue (demo_wcache 10) 0 (Some demo_auth)) ''at''
       = Some \<lparr>wtoken = ''at'', wexpiresAt = 10 * Minute\<rparr>
   \<and> fst (Windsurf_ensureAPIToken demo_metaStringValue (demo_wcache 10) 0 (Some demo_auth)) ''at''
       \<noteq> Some \<lparr>wtoken = ''at'', wexpiresAt = 0 + 25 * Minute\<rparr>"
  by (simp add: Windsurf_ensureAPIToken_def Let_def demo_defs const_defs)

section \<open>The device flow: what is proved\<close>

lemmas poll_consts = defaultPollInterval_def maxPollDuration_def Minute_def Second_def
  fitsDuration_def minDuration_def maxDuration_def

lemma wrap64_id: "fitsDuration n \<Longrightarrow> wrap64 n = n"
  by (simp add: wrap64_def fitsDuration_def minDuration_def maxDuration_def)

lemma exchange_pending:
  "reply_body um r = Some o' \<Longrightarrow> Error o' = ''authorization_pending'' \<Longrightarrow>
     exchangeDeviceCode um r = Inl ErrAuthorizationPending"
  by (auto simp: reply_body_def exchangeDeviceCode_def split: http_result.splits if_splits sum.splits)

lemma exchange_slow_down:
  "reply_body um r = Some o' \<Longrightarrow> Error o' = ''slow_down'' \<Longrightarrow>
     exchangeDeviceCode um r = Inl ErrSlowDown"
  by (auto simp: reply_body_def exchangeDeviceCode_def split: http_result.splits if_splits sum.splits)

lemma exchange_expired:
  "reply_body um r = Some o' \<Longrightarrow> Error o' = ''expired_token'' \<Longrightarrow>
     exchangeDeviceCode um r = Inl ErrDeviceCodeExpired"
  by (auto simp: reply_body_def exchangeDeviceCode_def split: http_result.splits if_splits sum.splits)

lemma exchange_denied:
  "reply_body um r = Some o' \<Longrightarrow> Error o' = ''access_denied'' \<Longrightarrow>
     exchangeDeviceCode um r = Inl ErrAccessDenied"
  by (auto simp: reply_body_def exchangeDeviceCode_def split: http_result.splits if_splits sum.splits)

lemma exchange_token:
  "reply_body um r = Some o' \<Longrightarrow> Error o' = [] \<Longrightarrow> RespAccessToken o' \<noteq> [] \<Longrightarrow>
     exchangeDeviceCode um r = Inr \<lparr>tdAccessToken = RespAccessToken o', tdTokenType = RespTokenType o',
                        tdScope = RespScope o'\<rparr>"
  by (auto simp: reply_body_def exchangeDeviceCode_def split: http_result.splits if_splits sum.splits)

text \<open>
  The ticks of a ticker: the tick after one received at \<open>r\<close> comes later than \<open>r\<close> and
  at most one period later; after a tick received when it was sent, exactly one period
  later.
\<close>

lemma next_tick_after: "0 < p \<Longrightarrow> r < next_tick due p r"
proof -
  assume p: "0 < p"
  define q where "q = p * ((r - due) div p)"
  have e: "r - due = q + (r - due) mod p"
    by (simp add: q_def)
  have m: "(r - due) mod p < p"
    using p by simp
  have "next_tick due p r = due + q + p"
    by (simp add: next_tick_def q_def algebra_simps)
  with e m show ?thesis
    by linarith
qed

lemma next_tick_within: "0 < p \<Longrightarrow> next_tick due p r \<le> r + p"
proof -
  assume p: "0 < p"
  define q where "q = p * ((r - due) div p)"
  have e: "r - due = q + (r - due) mod p"
    by (simp add: q_def)
  have m: "0 \<le> (r - due) mod p"
    using p by simp
  have "next_tick due p r = due + q + p"
    by (simp add: next_tick_def q_def algebra_simps)
  with e m show ?thesis
    by linarith
qed

lemma next_tick_on_time: "0 < p \<Longrightarrow> next_tick due p due = due + p"
  by (simp add: next_tick_def)

lemma live_unfold:
  assumes "live tm c dl k now due iv"
  shows "poll_loop um ep tm c dl k now due iv =
     (case exchangeDeviceCode um (ep k) of
           Inr tok \<Rightarrow>
             \<lparr>finishedAt = done_at tm k now due, polledAt = [read_at tm k now due],
              outcome = Returned (Inr tok)\<rparr>
         | Inl err \<Rightarrow>
             (case asAuthenticationError err of
                Some (AuthenticationError t m c' cause) \<Rightarrow>
                  if t = ''authorization_pending'' then
                    polled (read_at tm k now due)
                      (poll_loop um ep tm c dl (Suc k) (done_at tm k now due)
                         (next_tick due iv (tick_at now due)) iv)
                  else if t = ''slow_down'' then
                    polled (read_at tm k now due)
                      (poll_loop um ep tm c dl (Suc k) (done_at tm k now due)
                         (done_at tm k now due + wrap64 (iv + 5 * Second))
                         (wrap64 (iv + 5 * Second)))
                  else
                    \<lparr>finishedAt = done_at tm k now due, polledAt = [read_at tm k now due],
                     outcome = Returned (Inl err)\<rparr>
              | _ \<Rightarrow>
                  \<lparr>finishedAt = done_at tm k now due, polledAt = [read_at tm k now due],
                   outcome = Returned (Inl err)\<rparr>))"
proof -
  have 1: "\<not> iv \<le> 0" "\<not> read_at tm k now due > dl"
    "\<not> (case c of Some c \<Rightarrow> c < tick_at now due | None \<Rightarrow> False)"
    using assms by (auto simp: live_def split: option.splits)
  show ?thesis
    apply (subst poll_loop.simps)
    apply (simp only: 1 if_False)
    apply (auto split: sum.splits option.splits goerr.splits)
    done
qed

lemma not_live_no_poll:
  assumes "\<not> live tm c dl k now due iv"
  shows "polledAt (poll_loop um ep tm c dl k now due iv) = []"
  using assms by (subst poll_loop.simps) (auto simp: live_def split: option.splits)

lemma turn_pending:
  assumes "live tm c dl k now due iv" "exchangeDeviceCode um (ep k) = Inl ErrAuthorizationPending"
  shows "poll_loop um ep tm c dl k now due iv =
     polled (read_at tm k now due)
       (poll_loop um ep tm c dl (Suc k) (done_at tm k now due)
          (next_tick due iv (tick_at now due)) iv)"
  using assms by (simp add: live_unfold ErrAuthorizationPending_def)

lemma turn_slow_down:
  assumes "live tm c dl k now due iv" "exchangeDeviceCode um (ep k) = Inl ErrSlowDown"
  shows "poll_loop um ep tm c dl k now due iv =
     polled (read_at tm k now due)
       (poll_loop um ep tm c dl (Suc k) (done_at tm k now due)
          (done_at tm k now due + wrap64 (iv + 5 * Second)) (wrap64 (iv + 5 * Second)))"
  using assms by (simp add: live_unfold ErrSlowDown_def)

lemma turn_expired:
  assumes "live tm c dl k now due iv" "exchangeDeviceCode um (ep k) = Inl ErrDeviceCodeExpired"
  shows "poll_loop um ep tm c dl k now due iv =
     \<lparr>finishedAt = done_at tm k now due, polledAt = [read_at tm k now due],
        outcome = Returned (Inl ErrDeviceCodeExpired)\<rparr>"
  using assms by (simp add: live_unfold ErrDeviceCodeExpired_def)

lemma turn_denied:
  assumes "live tm c dl k now due iv" "exchangeDeviceCode um (ep k) = Inl ErrAccessDenied"
  shows "poll_loop um ep tm c dl k now due iv =
     \<lparr>finishedAt = done_at tm k now due, polledAt = [read_at tm k now due],
        outcome = Returned (Inl ErrAccessDenied)\<rparr>"
  using assms by (simp add: live_unfold ErrAccessDenied_def)

lemma turn_token:
  assumes "live tm c dl k now due iv" "exchangeDeviceCode um (ep k) = Inr tok"
  shows "poll_loop um ep tm c dl k now due iv =
     \<lparr>finishedAt = done_at tm k now due, polledAt = [read_at tm k now due],
        outcome = Returned (Inr tok)\<rparr>"
  using assms by (simp add: live_unfold)

lemma times_ordered:
  "now \<le> tick_at now due" "due \<le> tick_at now due" "tick_at now due \<le> read_at tm k now due"
  "read_at tm k now due \<le> done_at tm k now due"
  by (simp_all add: tick_at_def read_at_def done_at_def)

lemma polls_not_before:
  "t \<in> set (polledAt (poll_loop um ep tm c dl k now due iv)) \<Longrightarrow> tick_at now due \<le> t"
proof (induction um ep tm c dl k now due iv arbitrary: t rule: poll_loop.induct)
  case (1 um ep tm c dl k now due iv)
  show ?case
  proof (cases "live tm c dl k now due iv")
    case False
    with "1.prems" show ?thesis by (simp add: not_live_no_poll)
  next
    case True
    then have nl: "\<not> iv \<le> 0" "\<not> (case c of Some c \<Rightarrow> c < tick_at now due | None \<Rightarrow> False)"
        "\<not> dl < read_at tm k now due"
      by (auto simp: live_def split: option.splits)
    note ih1 = "1.IH"(1)[OF nl]
    note ih2 = "1.IH"(2)[OF nl]
    have o: "tick_at now due \<le> read_at tm k now due"
      "\<And>d. tick_at now due \<le> tick_at (done_at tm k now due) d"
      by (auto simp: tick_at_def read_at_def done_at_def max_def)
    show ?thesis
    proof (cases "exchangeDeviceCode um (ep k)")
      case (Inr tok)
      with "1.prems" o show ?thesis by (simp add: turn_token[OF True])
    next
      case (Inl err)
      show ?thesis
      proof (cases "asAuthenticationError err")
        case None
        with "1.prems" o Inl show ?thesis by (simp add: live_unfold[OF True])
      next
        case (Some x)
        then obtain ty m c' cause where x: "x = AuthenticationError ty m c' cause"
          by (induction err rule: asAuthenticationError.induct) auto
        consider "ty = ''authorization_pending''"
          | "ty \<noteq> ''authorization_pending''" "ty = ''slow_down''"
          | "ty \<noteq> ''authorization_pending''" "ty \<noteq> ''slow_down''"
          by blast
        then show ?thesis
        proof cases
          case 1
          from "1.prems" have "t = read_at tm k now due
              \<or> t \<in> set (polledAt (poll_loop um ep tm c dl (Suc k) (done_at tm k now due)
                         (next_tick due iv (tick_at now due)) iv))"
            by (simp add: live_unfold[OF True] Inl Some x 1 polled_def)
          then show ?thesis
          proof
            assume "t = read_at tm k now due"
            with o show ?thesis by simp
          next
            assume a: "t \<in> set (polledAt (poll_loop um ep tm c dl (Suc k) (done_at tm k now due)
                         (next_tick due iv (tick_at now due)) iv))"
            from ih1[OF Inl Some x 1 a] o(2)[of "next_tick due iv (tick_at now due)"]
            show ?thesis by linarith
          qed
        next
          case 2
          from "1.prems" have "t = read_at tm k now due
              \<or> t \<in> set (polledAt (poll_loop um ep tm c dl (Suc k) (done_at tm k now due)
                         (done_at tm k now due + wrap64 (iv + 5 * Second))
                         (wrap64 (iv + 5 * Second))))"
            by (simp add: live_unfold[OF True] Inl Some x 2 polled_def)
          then show ?thesis
          proof
            assume "t = read_at tm k now due"
            with o show ?thesis by simp
          next
            assume a: "t \<in> set (polledAt (poll_loop um ep tm c dl (Suc k) (done_at tm k now due)
                         (done_at tm k now due + wrap64 (iv + 5 * Second))
                         (wrap64 (iv + 5 * Second))))"
            from ih2[OF Inl Some x 2 a] o(2)[of "done_at tm k now due + wrap64 (iv + 5 * Second)"]
            show ?thesis by linarith
          qed
        next
          case 3
          with "1.prems" o show ?thesis
            by (simp add: live_unfold[OF True] Inl Some x)
        qed
      qed
    qed
  qed
qed

lemma polls_after_reset:
  assumes "t \<in> set (polledAt (poll_loop um ep tm c dl k now (now + iv) iv))"
  shows "now + iv \<le> t"
  using polls_not_before[OF assms] by (simp add: tick_at_def)

lemma poll_loop_pending_outcome:
  assumes pending: "\<forall>k. exchangeDeviceCode um (ep k) = Inl ErrAuthorizationPending"
    and pos: "0 < iv"
  shows "outcome (poll_loop um ep tm None dl k now due iv) = Returned (Inl ErrPollingTimeout)
     \<and> dl < finishedAt (poll_loop um ep tm None dl k now due iv)
     \<and> (\<forall>t \<in> set (polledAt (poll_loop um ep tm None dl k now due iv)). t \<le> dl)"
proof (induction "nat (dl + 1 - due)" arbitrary: k now due rule: less_induct)
  case less
  show ?case
  proof (cases "read_at tm k now due \<le> dl")
    case False
    then show ?thesis using pos
      by (subst (1 2 3) poll_loop.simps) auto
  next
    case True
    then have l: "live tm None dl k now due iv"
      using pos by (simp add: live_def)
    have o: "due \<le> tick_at now due" "tick_at now due \<le> read_at tm k now due"
      by (simp_all add: tick_at_def read_at_def)
    have d1: "tick_at now due < next_tick due iv (tick_at now due)"
      by (rule next_tick_after[OF pos])
    have dec: "nat (dl + 1 - next_tick due iv (tick_at now due)) < nat (dl + 1 - due)"
      using d1 True o by linarith
    show ?thesis
      using less.hyps[OF dec, of "Suc k" "done_at tm k now due"] True
      by (simp add: turn_pending[OF l pending[rule_format]] polled_def)
  qed
qed

lemma poll_loop_pending_bound:
  assumes pending: "\<forall>k. exchangeDeviceCode um (ep k) = Inl ErrAuthorizationPending"
    and pos: "0 < iv"
    and took: "\<forall>k. int (Took tm k) \<le> L" and lag: "\<forall>k. int (Lag tm k) \<le> G"
    and inv: "now \<le> dl + L" "due \<le> dl + iv"
  shows "finishedAt (poll_loop um ep tm None dl k now due iv) \<le> dl + max iv L + G"
  using inv
proof (induction "nat (dl + 1 - due)" arbitrary: k now due rule: less_induct)
  case less
  have lg: "int (Lag tm k) \<le> G" and tk: "int (Took tm k) \<le> L"
    using took lag by auto
  show ?case
  proof (cases "read_at tm k now due \<le> dl")
    case False
    have "read_at tm k now due \<le> dl + max iv L + G"
      using less.prems lg by (simp add: read_at_def tick_at_def max_def)
    with False show ?thesis using pos
      by (subst poll_loop.simps) auto
  next
    case True
    then have l: "live tm None dl k now due iv"
      using pos by (simp add: live_def)
    have o: "due \<le> tick_at now due" "tick_at now due \<le> read_at tm k now due"
      by (simp_all add: tick_at_def read_at_def)
    have d1: "tick_at now due < next_tick due iv (tick_at now due)"
      by (rule next_tick_after[OF pos])
    have d2: "next_tick due iv (tick_at now due) \<le> tick_at now due + iv"
      by (rule next_tick_within[OF pos])
    have dec: "nat (dl + 1 - next_tick due iv (tick_at now due)) < nat (dl + 1 - due)"
      using d1 True o by linarith
    have i1: "done_at tm k now due \<le> dl + L"
      using True tk by (simp add: done_at_def)
    have i2: "next_tick due iv (tick_at now due) \<le> dl + iv"
      using d2 True o by linarith
    show ?thesis
      using less.hyps[OF dec i1 i2, of "Suc k"] True
      by (simp add: turn_pending[OF l pending[rule_format]] polled_def)
  qed
qed

lemma PollForToken_start:
  assumes "fitsDuration (Interval dc * Second)"
  shows "PollForToken um ep tm c t0 (Some dc) =
     poll_loop um ep tm c
       (if ExpiresIn dc > 0 \<and> t0 + wrap64 (ExpiresIn dc * Second) < t0 + maxPollDuration
        then t0 + wrap64 (ExpiresIn dc * Second) else t0 + maxPollDuration)
       0 t0 (t0 + max (Interval dc * Second) (5 * Second)) (max (Interval dc * Second) (5 * Second))"
  using assms by (auto simp: PollForToken_def Let_def wrap64_id defaultPollInterval_def max_def)


lemmas flow_defs = demo_unmarshal_def demo_reply_def demo_dc_def

lemmas timing_defs = tick_at_def read_at_def done_at_def next_tick_def demo_timing_def
  demo_slow_timing_def demo_instant_def

text \<open>
  C2, as the code has it. With an interval whose nanosecond count fits a duration,
  \<open>PollForToken\<close> enters its loop with a ticker of the period \<open>max(interval, 5s)\<close>, whose
  first tick is due one period after the start. At a tick that is received before the
  context is done, with the clock read after it not past the deadline, the endpoint is
  polled and: on \<open>authorization_pending\<close> the loop goes on with the same period, and the
  next tick is the first one the ticker sends after this one was received, at most one
  period later and exactly one period after this one when the loop was waiting for it;
  on \<open>slow_down\<close> it goes on with the period 5 seconds longer, and every later poll
  comes at least that new period after this one; on \<open>expired_token\<close> and on
  \<open>access_denied\<close> it returns the matching error; and on a body with no error and a
  non-empty access token it returns that token, whatever the HTTP status.
\<close>

theorem device_flow_polling:
  "(fitsDuration (Interval dc * Second) \<longrightarrow>
      PollForToken um ep tm c t0 (Some dc) =
        poll_loop um ep tm c
          (if ExpiresIn dc > 0 \<and> t0 + wrap64 (ExpiresIn dc * Second) < t0 + maxPollDuration
           then t0 + wrap64 (ExpiresIn dc * Second) else t0 + maxPollDuration)
          0 t0 (t0 + max (Interval dc * Second) (5 * Second))
          (max (Interval dc * Second) (5 * Second)))
   \<and> (live tm c dl k now due iv
        \<and> map_option Error (reply_body um (ep k)) = Some ''authorization_pending'' \<longrightarrow>
        poll_loop um ep tm c dl k now due iv
          = polled (read_at tm k now due)
              (poll_loop um ep tm c dl (Suc k) (done_at tm k now due)
                 (next_tick due iv (tick_at now due)) iv)
        \<and> tick_at now due < next_tick due iv (tick_at now due)
        \<and> next_tick due iv (tick_at now due) \<le> tick_at now due + iv
        \<and> (now \<le> due \<longrightarrow> next_tick due iv (tick_at now due) = due + iv))
   \<and> (live tm c dl k now due iv \<and> map_option Error (reply_body um (ep k)) = Some ''slow_down''
        \<and> iv + 5 * Second \<le> maxDuration \<longrightarrow>
        poll_loop um ep tm c dl k now due iv
          = polled (read_at tm k now due)
              (poll_loop um ep tm c dl (Suc k) (done_at tm k now due)
                 (done_at tm k now due + (iv + 5 * Second)) (iv + 5 * Second))
        \<and> (\<forall>t \<in> set (polledAt (poll_loop um ep tm c dl (Suc k) (done_at tm k now due)
                                   (done_at tm k now due + (iv + 5 * Second)) (iv + 5 * Second))).
              read_at tm k now due + (iv + 5 * Second) \<le> t))
   \<and> (live tm c dl k now due iv
        \<and> map_option Error (reply_body um (ep k)) = Some ''expired_token'' \<longrightarrow>
        poll_loop um ep tm c dl k now due iv
          = \<lparr>finishedAt = done_at tm k now due, polledAt = [read_at tm k now due],
             outcome = Returned (Inl ErrDeviceCodeExpired)\<rparr>)
   \<and> (live tm c dl k now due iv
        \<and> map_option Error (reply_body um (ep k)) = Some ''access_denied'' \<longrightarrow>
        poll_loop um ep tm c dl k now due iv
          = \<lparr>finishedAt = done_at tm k now due, polledAt = [read_at tm k now due],
             outcome = Returned (Inl ErrAccessDenied)\<rparr>)
   \<and> (live tm c dl k now due iv \<and> reply_body um (ep k) = Some oresp \<and> Error oresp = []
        \<and> RespAccessToken oresp \<noteq> [] \<longrightarrow>
        poll_loop um ep tm c dl k now due iv
          = \<lparr>finishedAt = done_at tm k now due, polledAt = [read_at tm k now due],
             outcome = Returned (Inr \<lparr>tdAccessToken = RespAccessToken oresp,
                                       tdTokenType = RespTokenType oresp,
                                       tdScope = RespScope oresp\<rparr>)\<rparr>)"
proof (intro conjI impI ballI)
  assume "fitsDuration (Interval dc * Second)"
  then show "PollForToken um ep tm c t0 (Some dc) =
        poll_loop um ep tm c
          (if ExpiresIn dc > 0 \<and> t0 + wrap64 (ExpiresIn dc * Second) < t0 + maxPollDuration
           then t0 + wrap64 (ExpiresIn dc * Second) else t0 + maxPollDuration)
          0 t0 (t0 + max (Interval dc * Second) (5 * Second))
          (max (Interval dc * Second) (5 * Second))"
    by (rule PollForToken_start)
next
  assume h: "live tm c dl k now due iv
        \<and> map_option Error (reply_body um (ep k)) = Some ''authorization_pending''"
  then have "exchangeDeviceCode um (ep k) = Inl ErrAuthorizationPending"
    by (auto intro: exchange_pending)
  with h show "poll_loop um ep tm c dl k now due iv
          = polled (read_at tm k now due)
              (poll_loop um ep tm c dl (Suc k) (done_at tm k now due)
                 (next_tick due iv (tick_at now due)) iv)"
    by (simp add: turn_pending)
  from h have pos: "0 < iv"
    by (simp add: live_def)
  show "tick_at now due < next_tick due iv (tick_at now due)"
    by (rule next_tick_after[OF pos])
  show "next_tick due iv (tick_at now due) \<le> tick_at now due + iv"
    by (rule next_tick_within[OF pos])
  assume "now \<le> due"
  then show "next_tick due iv (tick_at now due) = due + iv"
    using pos by (simp add: tick_at_def next_tick_on_time)
next
  assume h: "live tm c dl k now due iv \<and> map_option Error (reply_body um (ep k)) = Some ''slow_down''
        \<and> iv + 5 * Second \<le> maxDuration"
  then have e: "exchangeDeviceCode um (ep k) = Inl ErrSlowDown"
    by (auto intro: exchange_slow_down)
  from h have "fitsDuration (iv + 5 * Second)"
    by (simp add: live_def fitsDuration_def minDuration_def Second_def)
  then have "wrap64 (iv + 5 * Second) = iv + 5 * Second"
    by (rule wrap64_id)
  with h e show "poll_loop um ep tm c dl k now due iv
          = polled (read_at tm k now due)
              (poll_loop um ep tm c dl (Suc k) (done_at tm k now due)
                 (done_at tm k now due + (iv + 5 * Second)) (iv + 5 * Second))"
    by (simp add: turn_slow_down)
next
  fix t
  assume "t \<in> set (polledAt (poll_loop um ep tm c dl (Suc k) (done_at tm k now due)
                                   (done_at tm k now due + (iv + 5 * Second)) (iv + 5 * Second)))"
  then have "done_at tm k now due + (iv + 5 * Second) \<le> t"
    by (rule polls_after_reset)
  then show "read_at tm k now due + (iv + 5 * Second) \<le> t"
    by (simp add: done_at_def)
next
  assume h: "live tm c dl k now due iv
        \<and> map_option Error (reply_body um (ep k)) = Some ''expired_token''"
  then have "exchangeDeviceCode um (ep k) = Inl ErrDeviceCodeExpired"
    by (auto intro: exchange_expired)
  with h show "poll_loop um ep tm c dl k now due iv
          = \<lparr>finishedAt = done_at tm k now due, polledAt = [read_at tm k now due],
             outcome = Returned (Inl ErrDeviceCodeExpired)\<rparr>"
    by (simp add: turn_expired)
next
  assume h: "live tm c dl k now due iv
        \<and> map_option Error (reply_body um (ep k)) = Some ''access_denied''"
  then have "exchangeDeviceCode um (ep k) = Inl ErrAccessDenied"
    by (auto intro: exchange_denied)
  with h show "poll_loop um ep tm c dl k now due iv
          = \<lparr>finishedAt = done_at tm k now due, polledAt = [read_at tm k now due],
             outcome = Returned (Inl ErrAccessDenied)\<rparr>"
    by (simp add: turn_denied)
next
  assume h: "live tm c dl k now due iv \<and> reply_body um (ep k) = Some oresp \<and> Error oresp = []
        \<and> RespAccessToken oresp \<noteq> []"
  then have "exchangeDeviceCode um (ep k) = Inr \<lparr>tdAccessToken = RespAccessToken oresp,
                                       tdTokenType = RespTokenType oresp,
                                       tdScope = RespScope oresp\<rparr>"
    by (auto intro: exchange_token)
  with h show "poll_loop um ep tm c dl k now due iv
          = \<lparr>finishedAt = done_at tm k now due, polledAt = [read_at tm k now due],
             outcome = Returned (Inr \<lparr>tdAccessToken = RespAccessToken oresp,
                                       tdTokenType = RespTokenType oresp,
                                       tdScope = RespScope oresp\<rparr>)\<rparr>"
    by (simp add: turn_token)
qed

text \<open>
  A run of the loop that the statement above determines step by step, with exchanges
  that take one second: pending at 5 s, slow down at 10 s, the ticker reset at 11 s, the
  token asked for at 21 s and returned at 22 s.
\<close>

theorem device_flow_polling_witness:
  "PollForToken demo_unmarshal demo_script demo_timing None 0 (Some (demo_dc 600 5))
     = \<lparr>finishedAt = 22 * Second, polledAt = [5 * Second, 10 * Second, 21 * Second],
        outcome = Returned (Inr \<lparr>tdAccessToken = ''at'', tdTokenType = ''bearer'',
                                  tdScope = ''user''\<rparr>)\<rparr>"
proof -
  have b: "reply_body demo_unmarshal (demo_script 0)
             = Some \<lparr>Error = ''authorization_pending'', ErrorDescription = [], RespAccessToken = [],
                     RespTokenType = [], RespScope = []\<rparr>"
     "reply_body demo_unmarshal (demo_script (Suc 0))
             = Some \<lparr>Error = ''slow_down'', ErrorDescription = [], RespAccessToken = [],
                     RespTokenType = [], RespScope = []\<rparr>"
     "reply_body demo_unmarshal (demo_script (Suc (Suc 0)))
             = Some \<lparr>Error = [], ErrorDescription = [], RespAccessToken = ''at'',
                     RespTokenType = ''bearer'', RespScope = ''user''\<rparr>"
    by (simp_all add: reply_body_def demo_script_def flow_defs)
  have l: "live demo_timing None (600 * Second) 0 0 (5 * Second) (5 * Second)"
      "live demo_timing None (600 * Second) (Suc 0) (6 * Second) (10 * Second) (5 * Second)"
      "live demo_timing None (600 * Second) (Suc (Suc 0)) (11 * Second) (21 * Second) (10 * Second)"
    by (simp_all add: live_def timing_defs Second_def)
  have f: "fitsDuration (Interval (demo_dc 600 5) * Second)"
    by (simp add: flow_defs poll_consts)
  have w: "wrap64 (600 * Second) = 600 * Second"
    by (simp add: wrap64_def Second_def)
  note start = device_flow_polling[where dc="demo_dc 600 5" and um=demo_unmarshal
      and ep=demo_script and tm=demo_timing and c=None and ?t0.0=0,
      THEN conjunct1, rule_format, OF f]
  note p0 = device_flow_polling[where um=demo_unmarshal and ep=demo_script and tm=demo_timing
      and c=None and dl="600 * Second" and now=0 and due="5 * Second" and iv="5 * Second" and k=0,
      THEN conjunct2, THEN conjunct1, rule_format, THEN conjunct1]
  note p1 = device_flow_polling[where um=demo_unmarshal and ep=demo_script and tm=demo_timing
      and c=None and dl="600 * Second" and now="6 * Second" and due="10 * Second"
      and iv="5 * Second" and k="Suc 0",
      THEN conjunct2, THEN conjunct2, THEN conjunct1, rule_format, THEN conjunct1]
  note p2 = device_flow_polling[where um=demo_unmarshal and ep=demo_script and tm=demo_timing
      and c=None and dl="600 * Second" and now="11 * Second" and due="21 * Second"
      and iv="10 * Second" and k="Suc (Suc 0)"
      and oresp="\<lparr>Error = [], ErrorDescription = [], RespAccessToken = ''at'',
                     RespTokenType = ''bearer'', RespScope = ''user''\<rparr>",
      THEN conjunct2, THEN conjunct2, THEN conjunct2, THEN conjunct2, THEN conjunct2, rule_format]
  have s0: "poll_loop demo_unmarshal demo_script demo_timing None (600 * Second) 0 0 (5 * Second)
        (5 * Second)
      = polled (5 * Second)
          (poll_loop demo_unmarshal demo_script demo_timing None (600 * Second) (Suc 0)
             (6 * Second) (10 * Second) (5 * Second))"
    using p0 l(1) b(1) by (simp add: timing_defs Second_def)
  have s1: "poll_loop demo_unmarshal demo_script demo_timing None (600 * Second) (Suc 0)
        (6 * Second) (10 * Second) (5 * Second)
      = polled (10 * Second)
          (poll_loop demo_unmarshal demo_script demo_timing None (600 * Second) (Suc (Suc 0))
             (11 * Second) (21 * Second) (10 * Second))"
    using p1 l(2) b(2) by (simp add: timing_defs Second_def maxDuration_def)
  have s2: "poll_loop demo_unmarshal demo_script demo_timing None (600 * Second) (Suc (Suc 0))
        (11 * Second) (21 * Second) (10 * Second)
      = \<lparr>finishedAt = 22 * Second, polledAt = [21 * Second],
         outcome = Returned (Inr \<lparr>tdAccessToken = ''at'', tdTokenType = ''bearer'',
                                   tdScope = ''user''\<rparr>)\<rparr>"
    using p2 l(3) b(3) by (simp add: timing_defs Second_def)
  have "PollForToken demo_unmarshal demo_script demo_timing None 0 (Some (demo_dc 600 5))
      = poll_loop demo_unmarshal demo_script demo_timing None (600 * Second) 0 0 (5 * Second)
          (5 * Second)"
    using start w by (simp add: flow_defs poll_consts)
  then show ?thesis
    by (simp add: s0 s1 s2 polled_def)
qed

text \<open>
  C2 as worded fails: a response with status 200 that carries a non-empty access token
  next to an error code is an error for \<open>exchangeDeviceCode\<close>, which tests the error
  first and never reads the status.
\<close>

theorem device_flow_polling_counterexample:
  "reply_status (demo_both 0) = Some 200
   \<and> map_option RespAccessToken (reply_body demo_unmarshal (demo_both 0)) = Some ''at''
   \<and> PollForToken demo_unmarshal demo_both demo_timing None 0 (Some (demo_dc 600 5))
       = \<lparr>finishedAt = 6 * Second, polledAt = [5 * Second],
          outcome = Returned (Inl (OAuthError ''server_error'' [] [] 200))\<rparr>"
  by (simp add: reply_status_def reply_body_def PollForToken_def Let_def poll_loop.simps
      exchangeDeviceCode_def NewOAuthError_def demo_both_def flow_defs poll_consts wrap64_def
      timing_defs)

text \<open>
  C3, as the code has it. With an endpoint that always answers
  \<open>authorization_pending\<close> and a context that is never cancelled, \<open>PollForToken\<close> returns
  \<open>ErrPollingTimeout\<close>. The deadline is \<open>min(expires_in, 15 min)\<close> after the start when
  \<open>expires_in\<close> is positive, and 15 minutes after the start otherwise. The deadline is
  tested when a tick is received, before the exchange: \<open>PollForToken\<close> returns after the
  deadline and starts no exchange after the deadline. When no exchange takes longer
  than \<open>L\<close> and no reading of the clock comes later than \<open>G\<close> after its tick, it returns
  no later than the deadline plus the longer of one poll interval and \<open>L\<close>, plus \<open>G\<close>.
\<close>

theorem device_flow_timeout:
  "fitsDuration (Interval dc * Second) \<and> fitsDuration (ExpiresIn dc * Second)
   \<and> (\<forall>k. map_option Error (reply_body um (ep k)) = Some ''authorization_pending'') \<longrightarrow>
   outcome (PollForToken um ep tm None t0 (Some dc)) = Returned (Inl ErrPollingTimeout)
   \<and> t0 + (if ExpiresIn dc > 0 then min (ExpiresIn dc * Second) (15 * Minute) else 15 * Minute)
        < finishedAt (PollForToken um ep tm None t0 (Some dc))
   \<and> (\<forall>t \<in> set (polledAt (PollForToken um ep tm None t0 (Some dc))).
         t \<le> t0 + (if ExpiresIn dc > 0 then min (ExpiresIn dc * Second) (15 * Minute)
                     else 15 * Minute))
   \<and> ((\<forall>k. int (Took tm k) \<le> L) \<and> (\<forall>k. int (Lag tm k) \<le> G) \<longrightarrow>
        finishedAt (PollForToken um ep tm None t0 (Some dc))
          \<le> t0 + (if ExpiresIn dc > 0 then min (ExpiresIn dc * Second) (15 * Minute) else 15 * Minute)
               + max (max (Interval dc * Second) (5 * Second)) L + G)"
proof (intro impI)
  assume h: "fitsDuration (Interval dc * Second) \<and> fitsDuration (ExpiresIn dc * Second)
   \<and> (\<forall>k. map_option Error (reply_body um (ep k)) = Some ''authorization_pending'')"
  define budget where
    "budget = (if ExpiresIn dc > 0 then min (ExpiresIn dc * Second) (15 * Minute) else 15 * Minute)"
  define period where "period = max (Interval dc * Second) (5 * Second)"
  have pending: "\<forall>k. exchangeDeviceCode um (ep k) = Inl ErrAuthorizationPending"
    using h by (auto intro: exchange_pending)
  have pos: "0 < period"
    by (simp add: period_def Second_def max_def)
  have nonneg: "0 \<le> budget"
    by (simp add: budget_def Second_def Minute_def min_def)
  have w: "wrap64 (ExpiresIn dc * Second) = ExpiresIn dc * Second"
    using h by (simp add: wrap64_id)
  have dl: "(if ExpiresIn dc > 0 \<and> t0 + wrap64 (ExpiresIn dc * Second) < t0 + maxPollDuration
        then t0 + wrap64 (ExpiresIn dc * Second) else t0 + maxPollDuration) = t0 + budget"
    by (auto simp: w budget_def maxPollDuration_def min_def)
  have "PollForToken um ep tm None t0 (Some dc) =
     poll_loop um ep tm None
       (if ExpiresIn dc > 0 \<and> t0 + wrap64 (ExpiresIn dc * Second) < t0 + maxPollDuration
        then t0 + wrap64 (ExpiresIn dc * Second) else t0 + maxPollDuration)
       0 t0 (t0 + max (Interval dc * Second) (5 * Second)) (max (Interval dc * Second) (5 * Second))"
    using h by (intro PollForToken_start) simp
  then have run: "PollForToken um ep tm None t0 (Some dc)
      = poll_loop um ep tm None (t0 + budget) 0 t0 (t0 + period) period"
    by (simp only: dl period_def)
  have bound: "(\<forall>k. int (Took tm k) \<le> L) \<and> (\<forall>k. int (Lag tm k) \<le> G) \<longrightarrow>
      finishedAt (poll_loop um ep tm None (t0 + budget) 0 t0 (t0 + period) period)
        \<le> t0 + budget + max period L + G"
  proof
    assume t: "(\<forall>k. int (Took tm k) \<le> L) \<and> (\<forall>k. int (Lag tm k) \<le> G)"
    then have took: "\<forall>k. int (Took tm k) \<le> L" and lag: "\<forall>k. int (Lag tm k) \<le> G"
      by auto
    have L0: "0 \<le> L"
      using took[rule_format, of 0] by linarith
    have i1: "t0 \<le> t0 + budget + L"
      using nonneg L0 by simp
    have i2: "t0 + period \<le> t0 + budget + period"
      using nonneg by simp
    show "finishedAt (poll_loop um ep tm None (t0 + budget) 0 t0 (t0 + period) period)
        \<le> t0 + budget + max period L + G"
      by (rule poll_loop_pending_bound[OF pending pos took lag i1 i2])
  qed
  show "outcome (PollForToken um ep tm None t0 (Some dc)) = Returned (Inl ErrPollingTimeout)
   \<and> t0 + (if ExpiresIn dc > 0 then min (ExpiresIn dc * Second) (15 * Minute) else 15 * Minute)
        < finishedAt (PollForToken um ep tm None t0 (Some dc))
   \<and> (\<forall>t \<in> set (polledAt (PollForToken um ep tm None t0 (Some dc))).
         t \<le> t0 + (if ExpiresIn dc > 0 then min (ExpiresIn dc * Second) (15 * Minute)
                     else 15 * Minute))
   \<and> ((\<forall>k. int (Took tm k) \<le> L) \<and> (\<forall>k. int (Lag tm k) \<le> G) \<longrightarrow>
        finishedAt (PollForToken um ep tm None t0 (Some dc))
          \<le> t0 + (if ExpiresIn dc > 0 then min (ExpiresIn dc * Second) (15 * Minute) else 15 * Minute)
               + max (max (Interval dc * Second) (5 * Second)) L + G)"
    using poll_loop_pending_outcome[OF pending pos, of tm "t0 + budget" 0 t0 "t0 + period"] bound
    unfolding run budget_def[symmetric] period_def[symmetric] by simp
qed

lemma demo_pending_body:
  "map_option Error (reply_body demo_unmarshal (demo_pending k)) = Some ''authorization_pending''"
  by (simp add: reply_body_def demo_pending_def flow_defs)

text \<open>
  Two instances. With \<open>expires_in = 13\<close>, an interval of 5 s and exchanges of 7 s the
  call returns between 13 s and 20 s. With \<open>expires_in = 0\<close> and steps that take no time
  it returns between 900 s and 905 s.
\<close>

theorem device_flow_timeout_witness:
  "outcome (PollForToken demo_unmarshal demo_pending demo_slow_timing None 0 (Some (demo_dc 13 5)))
     = Returned (Inl ErrPollingTimeout)
   \<and> 13 * Second
       < finishedAt (PollForToken demo_unmarshal demo_pending demo_slow_timing None 0 (Some (demo_dc 13 5)))
   \<and> finishedAt (PollForToken demo_unmarshal demo_pending demo_slow_timing None 0 (Some (demo_dc 13 5)))
       \<le> 20 * Second
   \<and> outcome (PollForToken demo_unmarshal demo_pending demo_instant None 0 (Some (demo_dc 0 5)))
     = Returned (Inl ErrPollingTimeout)
   \<and> 900 * Second
       < finishedAt (PollForToken demo_unmarshal demo_pending demo_instant None 0 (Some (demo_dc 0 5)))
   \<and> finishedAt (PollForToken demo_unmarshal demo_pending demo_instant None 0 (Some (demo_dc 0 5)))
       \<le> 905 * Second"
proof -
  have f: "fitsDuration (Interval (demo_dc 13 5) * Second)" "fitsDuration (ExpiresIn (demo_dc 13 5) * Second)"
    "fitsDuration (Interval (demo_dc 0 5) * Second)" "fitsDuration (ExpiresIn (demo_dc 0 5) * Second)"
    by (simp_all add: flow_defs poll_consts)
  have tm: "\<forall>k. int (Took demo_slow_timing k) \<le> 7 * Second" "\<forall>k. int (Lag demo_slow_timing k) \<le> 0"
    "\<forall>k. int (Took demo_instant k) \<le> 0" "\<forall>k. int (Lag demo_instant k) \<le> 0"
    by (simp_all add: timing_defs Second_def)
  note a = device_flow_timeout[where dc="demo_dc 13 5" and um=demo_unmarshal and ep=demo_pending
      and tm=demo_slow_timing and L="7 * Second" and G=0 and ?t0.0=0]
  note b = device_flow_timeout[where dc="demo_dc 0 5" and um=demo_unmarshal and ep=demo_pending
      and tm=demo_instant and L=0 and G=0 and ?t0.0=0]
  from a f tm demo_pending_body
  have a': "outcome (PollForToken demo_unmarshal demo_pending demo_slow_timing None 0 (Some (demo_dc 13 5)))
     = Returned (Inl ErrPollingTimeout)
   \<and> 13 * Second
       < finishedAt (PollForToken demo_unmarshal demo_pending demo_slow_timing None 0 (Some (demo_dc 13 5)))
   \<and> finishedAt (PollForToken demo_unmarshal demo_pending demo_slow_timing None 0 (Some (demo_dc 13 5)))
       \<le> 20 * Second"
    by (simp add: demo_dc_def Second_def Minute_def)
  from b f tm demo_pending_body
  have b': "outcome (PollForToken demo_unmarshal demo_pending demo_instant None 0 (Some (demo_dc 0 5)))
     = Returned (Inl ErrPollingTimeout)
   \<and> 900 * Second
       < finishedAt (PollForToken demo_unmarshal demo_pending demo_instant None 0 (Some (demo_dc 0 5)))
   \<and> finishedAt (PollForToken demo_unmarshal demo_pending demo_instant None 0 (Some (demo_dc 0 5)))
       \<le> 905 * Second"
    by (simp add: demo_dc_def Second_def Minute_def)
  from a' b' show ?thesis by blast
qed

text \<open>
  C3 as worded fails twice. For a device code without a positive \<open>expires_in\<close> the
  bound \<open>min(expires_in, 15 min)\<close> plus one interval is 5 s, and the loop runs for more
  than 15 minutes. And with \<open>expires_in = 13\<close>, an interval of 5 s and exchanges of 7 s,
  the endpoint is polled at 5 s and at 12 s, the second exchange ends at 19 s, and the
  tick received then is the first to find the deadline passed: the call returns at
  19 s, more than one interval after the deadline of 13 s.
\<close>

theorem device_flow_timeout_counterexample:
  "ExpiresIn (demo_dc 0 5) = 0
   \<and> (\<forall>k. map_option Error (reply_body demo_unmarshal (demo_pending k)) = Some ''authorization_pending'')
   \<and> \<not> finishedAt (PollForToken demo_unmarshal demo_pending demo_instant None 0 (Some (demo_dc 0 5)))
         \<le> 0 + min (ExpiresIn (demo_dc 0 5) * Second) (15 * Minute)
              + max (Interval (demo_dc 0 5) * Second) (5 * Second)
   \<and> PollForToken demo_unmarshal demo_pending demo_slow_timing None 0 (Some (demo_dc 13 5))
       = \<lparr>finishedAt = 19 * Second, polledAt = [5 * Second, 12 * Second],
          outcome = Returned (Inl ErrPollingTimeout)\<rparr>
   \<and> \<not> 19 * Second \<le> 0 + min (ExpiresIn (demo_dc 13 5) * Second) (15 * Minute)
              + max (Interval (demo_dc 13 5) * Second) (5 * Second)"
proof -
  have pending: "\<forall>k. exchangeDeviceCode demo_unmarshal (demo_pending k) = Inl ErrAuthorizationPending"
    using demo_pending_body by (auto intro: exchange_pending)
  have run: "PollForToken demo_unmarshal demo_pending demo_instant None 0 (Some (demo_dc 0 5))
     = poll_loop demo_unmarshal demo_pending demo_instant None (15 * Minute) 0 0 (5 * Second)
         (5 * Second)"
    by (simp add: PollForToken_def Let_def flow_defs poll_consts wrap64_def)
  have "15 * Minute < finishedAt (poll_loop demo_unmarshal demo_pending demo_instant None
      (15 * Minute) 0 0 (5 * Second) (5 * Second))"
    using poll_loop_pending_outcome[OF pending, where iv="5 * Second" and tm=demo_instant
        and dl="15 * Minute" and k=0 and now=0 and due="5 * Second"]
    by (simp add: Second_def)
  then have a: "\<not> finishedAt (PollForToken demo_unmarshal demo_pending demo_instant None 0 (Some (demo_dc 0 5)))
         \<le> 0 + min (ExpiresIn (demo_dc 0 5) * Second) (15 * Minute)
              + max (Interval (demo_dc 0 5) * Second) (5 * Second)"
    unfolding run by (simp add: demo_dc_def Second_def Minute_def)
  have slow: "PollForToken demo_unmarshal demo_pending demo_slow_timing None 0 (Some (demo_dc 13 5))
       = \<lparr>finishedAt = 19 * Second, polledAt = [5 * Second, 12 * Second],
          outcome = Returned (Inl ErrPollingTimeout)\<rparr>"
    by (simp add: PollForToken_def Let_def poll_loop.simps polled_def
      exchangeDeviceCode_def demo_pending_def flow_defs poll_consts wrap64_def
      timing_defs ErrAuthorizationPending_def)
  have b: "\<not> 19 * Second \<le> 0 + min (ExpiresIn (demo_dc 13 5) * Second) (15 * Minute)
              + max (Interval (demo_dc 13 5) * Second) (5 * Second)"
    by (simp add: demo_dc_def Second_def Minute_def)
  from a slow b demo_pending_body show ?thesis
    by (simp add: demo_dc_def)
qed

section \<open>The user-facing messages: what is proved\<close>

lemma Continue_message_shape:
  "Continue_GetUserFriendlyMessage err \<in> set continue_messages
   \<or> (\<exists>c d u s. asAuthenticationError err = None \<and> asOAuthError err = Some (OAuthError c d u s)
         \<and> Continue_GetUserFriendlyMessage err = ''Authentication failed: '' @ d)"
proof (cases "asAuthenticationError err")
  case (Some e)
  then obtain t m c cause where "e = AuthenticationError t m c cause"
    by (induction err rule: asAuthenticationError.induct) auto
  with Some show ?thesis
    by (simp add: Continue_GetUserFriendlyMessage_def continue_messages_def)
next
  case None
  show ?thesis
  proof (cases "asOAuthError err")
    case n: None
    with None show ?thesis
      by (simp add: Continue_GetUserFriendlyMessage_def continue_messages_def)
  next
    case (Some e)
    then obtain c d u s where "e = OAuthError c d u s"
      by (induction err rule: asOAuthError.induct) auto
    with None Some show ?thesis
      by (simp add: Continue_GetUserFriendlyMessage_def continue_messages_def)
  qed
qed

lemma Cursor_message_shape:
  "Cursor_GetUserFriendlyMessage cerr \<in> set cursor_messages
   \<or> (cerr = CNil \<and> Cursor_GetUserFriendlyMessage cerr = [])
   \<or> Cursor_GetUserFriendlyMessage cerr = ''Authentication failed: '' @ cursor_Error cerr"
  by (cases cerr) (auto simp: Cursor_GetUserFriendlyMessage_def cursor_messages_def)




lemma Continue_message_wrapped:
  "Continue_GetUserFriendlyMessage (Wrapped s err) = Continue_GetUserFriendlyMessage err"
  by (simp add: Continue_GetUserFriendlyMessage_def cong: option.case_cong goerr.case_cong)







section \<open>The translators: what is proved\<close>

text \<open>
  C7. The converters registered for the OpenAI-compatible pairs under study (OpenAI chat
  and OpenAI responses to Windsurf and to Cursor, Windsurf to OpenAI, and the response
  converters of the Continue pairs) return their input: the request converter returns
  the body, the non-streaming response converter returns the upstream body, and the
  chunks the streaming response converter returns are, put together, the bytes of the
  upstream line.
\<close>

theorem openai_compatible_identity:
  "ConvertOpenAIRequestToWindsurf model body stream = body
   \<and> ConvertWindsurfResponseToOpenAINonStream originalRequest translatedRequest model body = body
   \<and> concat (ConvertWindsurfResponseToOpenAI originalRequest translatedRequest model line) = line
   \<and> ConvertWindsurfRequestToOpenAI model body stream = body
   \<and> ConvertOpenAIResponseToWindsurfNonStream originalRequest translatedRequest model body = body
   \<and> concat (ConvertOpenAIResponseToWindsurf originalRequest translatedRequest model line) = line
   \<and> ConvertOpenAIResponseRequestToWindsurf model body stream = body
   \<and> ConvertWindsurfResponseToOpenAIResponseNonStream originalRequest translatedRequest model body = body
   \<and> concat (ConvertWindsurfResponseToOpenAIResponse originalRequest translatedRequest model line) = line
   \<and> ConvertOpenAIRequestToCursor model body stream = body
   \<and> ConvertCursorResponseToOpenAINonStream originalRequest translatedRequest model body = body
   \<and> concat (ConvertCursorResponseToOpenAI originalRequest translatedRequest model line) = line
   \<and> ConvertOpenAIResponseRequestToCursor model body stream = body
   \<and> ConvertCursorResponseToOpenAIResponseNonStream originalRequest translatedRequest model body = body
   \<and> concat (ConvertCursorResponseToOpenAIResponse originalRequest translatedRequest model line) = line
   \<and> ConvertContinueResponseToOpenAINonStream model originalRequest translatedRequest body = body
   \<and> ConvertContinueResponseToOpenAI model originalRequest translatedRequest line = [line]
   \<and> ConvertOpenAIResponseToContinueNonStream model originalRequest translatedRequest body = body
   \<and> ConvertOpenAIResponseToContinue model originalRequest translatedRequest line = [line]"
  by (simp add: ConvertOpenAIRequestToWindsurf_def ConvertWindsurfResponseToOpenAINonStream_def
      ConvertWindsurfResponseToOpenAI_def ConvertWindsurfRequestToOpenAI_def
      ConvertOpenAIResponseToWindsurfNonStream_def ConvertOpenAIResponseToWindsurf_def
      ConvertOpenAIResponseRequestToWindsurf_def ConvertWindsurfResponseToOpenAIResponseNonStream_def
      ConvertWindsurfResponseToOpenAIResponse_def ConvertOpenAIRequestToCursor_def
      ConvertCursorResponseToOpenAINonStream_def ConvertCursorResponseToOpenAI_def
      ConvertOpenAIResponseRequestToCursor_def ConvertCursorResponseToOpenAIResponseNonStream_def
      ConvertCursorResponseToOpenAIResponse_def ConvertContinueResponseToOpenAINonStream_def
      ConvertContinueResponseToOpenAI_def ConvertOpenAIResponseToContinueNonStream_def
      ConvertOpenAIResponseToContinue_def)

text \<open>
  The streaming converters of Windsurf and Cursor return the line as one chunk, and no
  chunk for an empty line.
\<close>

lemma stream_converters_chunks:
  "ConvertWindsurfResponseToOpenAI originalRequest translatedRequest model line
     = (if line = [] then [] else [line])
   \<and> ConvertOpenAIResponseToWindsurf originalRequest translatedRequest model line
     = (if line = [] then [] else [line])
   \<and> ConvertWindsurfResponseToOpenAIResponse originalRequest translatedRequest model line
     = (if line = [] then [] else [line])
   \<and> ConvertCursorResponseToOpenAI originalRequest translatedRequest model line
     = (if line = [] then [] else [line])
   \<and> ConvertCursorResponseToOpenAIResponse originalRequest translatedRequest model line
     = (if line = [] then [] else [line])"
  by (simp add: ConvertWindsurfResponseToOpenAI_def ConvertOpenAIResponseToWindsurf_def
      ConvertWindsurfResponseToOpenAIResponse_def ConvertCursorResponseToOpenAI_def
      ConvertCursorResponseToOpenAIResponse_def)

section \<open>The executors: what is proved\<close>

text \<open>
  The edits of sjson, read back with gjson: a value set at a path is found there, a
  member of another name is left as it was, and an edit succeeds on an object unless an
  array is in its way.
\<close>

lemma map_of_replace_first:
  "map_of kvs k = Some x \<Longrightarrow> map_of (replace_first k v kvs) = (map_of kvs)(k \<mapsto> v)"
  by (induction kvs) (auto split: if_splits)

lemma map_of_append_new:
  "map_of kvs k = None \<Longrightarrow> map_of (kvs @ [(k, v)]) = (map_of kvs)(k \<mapsto> v)"
  by (induction kvs) (auto split: if_splits)

lemma jget_build: "jget p (build p v) = Some v"
  by (induction p) auto

lemma sjson_set_get: "sjson_set p v j = Inr j' \<Longrightarrow> jget p j' = Some v"
proof (induction p v j arbitrary: j' rule: sjson_set.induct)
  case (2 k ks v kvs)
  show ?case
  proof (cases "map_of kvs k")
    case None
    with 2(2) show ?thesis
      by (auto simp: map_add_def jget_build)
  next
    case (Some sub)
    show ?thesis
    proof (cases "ks = []")
      case True
      with 2(2) Some show ?thesis by (auto simp: map_of_replace_first)
    next
      case False
      with 2(2) Some obtain sub' where s: "sjson_set ks v sub = Inr sub'"
        and j: "j' = JObj (replace_first k sub' kvs)"
        by (auto split: sum.splits)
      from 2(1)[OF Some False s] show ?thesis
        by (simp add: j map_of_replace_first[OF Some])
    qed
  qed
qed (auto simp: jget_build)

lemma sjson_set_other:
  "sjson_set (k # ks) v j = Inr j' \<Longrightarrow> k' \<noteq> k \<Longrightarrow> jget (k' # ks') j' = jget (k' # ks') j"
  by (cases j) (auto simp: map_of_replace_first map_of_append_new split: option.splits if_splits sum.splits)

lemma sjson_set_member:
  "is_object j \<Longrightarrow> \<exists>j'. sjson_set [k] v j = Inr j' \<and> is_object j'"
  by (cases j) (auto simp: is_object_def split: option.splits)

lemma sjson_set_nested:
  assumes "is_object j" and "\<not> (case jget [k1] j of Some sub \<Rightarrow> is_array sub | None \<Rightarrow> False)"
  shows "\<exists>j'. sjson_set [k1, k2] v j = Inr j' \<and> is_object j'"
proof -
  from assms(1) obtain kvs where j: "j = JObj kvs" by (cases j) (auto simp: is_object_def)
  show ?thesis
  proof (cases "map_of kvs k1")
    case None
    then show ?thesis by (simp add: j is_object_def)
  next
    case (Some sub)
    with assms(2) have "\<not> is_array sub" by (simp add: j)
    then have "\<exists>sub'. sjson_set [k2] v sub = Inr sub'"
      by (cases sub) (auto simp: is_array_def split: option.splits)
    with Some show ?thesis by (auto simp: j is_object_def)
  qed
qed

lemma SetBytes_ok: "sjson_set p v j = Inr j' \<Longrightarrow> SetBytes j p v = j'"
  by (simp add: SetBytes_def)

lemma Windsurf_stream_flags:
  assumes "is_object p"
    and "\<not> (case jget [''stream_options''] p of Some sub \<Rightarrow> is_array sub | None \<Rightarrow> False)"
  shows "jget [''stream'']
           (SetBytes (SetBytes p [''stream''] (JBool True)) [''stream_options'', ''include_usage'']
              (JBool True)) = Some (JBool True)
       \<and> jget [''stream_options'', ''include_usage'']
           (SetBytes (SetBytes p [''stream''] (JBool True)) [''stream_options'', ''include_usage'']
              (JBool True)) = Some (JBool True)"
proof -
  from sjson_set_member[OF assms(1)] obtain b3 where
    s3: "sjson_set [''stream''] (JBool True) p = Inr b3" and o3: "is_object b3"
    by blast
  have g3: "jget [''stream''] b3 = Some (JBool True)"
    using s3 by (rule sjson_set_get)
  have "jget [''stream_options''] b3 = jget [''stream_options''] p"
    using s3 by (rule sjson_set_other) simp
  with assms(2) have
    "\<not> (case jget [''stream_options''] b3 of Some sub \<Rightarrow> is_array sub | None \<Rightarrow> False)"
    by simp
  from sjson_set_nested[OF o3 this] obtain b where
    s: "sjson_set [''stream_options'', ''include_usage''] (JBool True) b3 = Inr b"
    by blast
  have "jget [''stream_options'', ''include_usage''] b = Some (JBool True)"
    using s by (rule sjson_set_get)
  moreover have "jget [''stream''] b = jget [''stream''] b3"
    using s by (rule sjson_set_other) simp
  ultimately show ?thesis
    by (simp add: SetBytes_ok[OF s3] SetBytes_ok[OF s] g3)
qed

lemma Continue_stream_flags:
  assumes "is_object p"
  shows "jget [''stream''] (SetBytes p [''stream''] (JBool True)) = Some (JBool True)
       \<and> jget [''stream_options'', ''include_usage''] (SetBytes p [''stream''] (JBool True))
           = jget [''stream_options'', ''include_usage''] p"
proof -
  from sjson_set_member[OF assms(1)] obtain b3 where
    s3: "sjson_set [''stream''] (JBool True) p = Inr b3"
    by blast
  have "jget [''stream''] b3 = Some (JBool True)"
    using s3 by (rule sjson_set_get)
  moreover have "jget [''stream_options'', ''include_usage''] b3
      = jget [''stream_options'', ''include_usage''] p"
    using s3 by (rule sjson_set_other) simp
  ultimately show ?thesis
    by (simp add: SetBytes_ok[OF s3])
qed

lemma Windsurf_stream_sent:
  assumes "r \<in> set (sent (snd (Windsurf_ExecuteStream msv w cache now auth req opts)))"
  shows "RequestBody r =
       SetBytes (SetBytes (Windsurf_streamPayload w req opts) [''stream''] (JBool True))
         [''stream_options'', ''include_usage''] (JBool True)"
proof -
  obtain cache' tr where t: "Windsurf_ensureAPIToken msv cache now auth = (cache', tr)"
    by (cases "Windsurf_ensureAPIToken msv cache now auth")
  show ?thesis
  proof (cases tr)
    case (Inl e)
    with assms t show ?thesis by (simp add: Windsurf_ExecuteStream_def)
  next
    case (Inr tok)
    show ?thesis
      using assms unfolding Windsurf_ExecuteStream_def t Inr Let_def
      by (auto simp: Windsurf_streamPayload_def Windsurf_applyHeaders_def Header_Set_def
          split: if_splits sum.splits)
  qed
qed

lemma Continue_stream_sent:
  assumes "r \<in> set (sent (snd (Continue_ExecuteStream cw w ctxDone cache now auth req opts)))"
  shows "RequestBody r = SetBytes (Continue_streamPayload w req opts) [''stream''] (JBool True)"
proof -
  obtain cache' tr where t: "Continue_ensureAPIToken cw cache now auth = (cache', tr)"
    by (cases "Continue_ensureAPIToken cw cache now auth")
  show ?thesis
  proof (cases tr)
    case (Inl e)
    with assms t show ?thesis by (simp add: Continue_ExecuteStream_def)
  next
    case (Inr tok)
    show ?thesis
      using assms unfolding Continue_ExecuteStream_def t Inr Let_def
      by (auto simp: Continue_streamPayload_def Continue_applyHeaders_def Header_Set_def
          split: if_splits sum.splits)
  qed
qed

lemmas exec_demo_defs = demo_usage_def demo_exec_world_def demo_bolt_world_def demo_request_def
  demo_options_def demo_error_response_def demo_broken_error_response_def
  demo_stream_response_def demo_broken_stream_response_def

text \<open>
  What the two executors send for a streaming call whose configured payload is a JSON
  object (for Windsurf: one whose \<open>stream_options\<close> member, if any, is not an array).
  Every request that \<open>ExecuteStream\<close> of Windsurf hands to the HTTP client has \<open>stream\<close>
  and \<open>stream_options.include_usage\<close> set to true. Every request of Continue has
  \<open>stream\<close> set to true and, at \<open>stream_options.include_usage\<close>, what the configured
  payload had there.
\<close>

lemma Windsurf_sends_stream_flags:
  assumes "is_object (Windsurf_streamPayload w req opts)"
    and "\<not> (case jget [''stream_options''] (Windsurf_streamPayload w req opts) of
            Some sub \<Rightarrow> is_array sub | None \<Rightarrow> False)"
    and r: "r \<in> set (sent (snd (Windsurf_ExecuteStream msv w wcache now auth req opts)))"
  shows "jget [''stream''] (RequestBody r) = Some (JBool True)
     \<and> jget [''stream_options'', ''include_usage''] (RequestBody r) = Some (JBool True)"
  using Windsurf_stream_flags[OF assms(1,2)] by (simp add: Windsurf_stream_sent[OF r])

lemma Continue_sends_stream_only:
  assumes "is_object (Continue_streamPayload w req opts)"
    and r: "r \<in> set (sent (snd (Continue_ExecuteStream cw w ctxDone cache now auth req opts)))"
  shows "jget [''stream''] (RequestBody r) = Some (JBool True)
     \<and> jget [''stream_options'', ''include_usage''] (RequestBody r)
         = jget [''stream_options'', ''include_usage''] (Continue_streamPayload w req opts)"
  using Continue_stream_flags[OF assms(1)] by (simp add: Continue_stream_sent[OF r])

lemma demo_Windsurf_stream_sent:
  "sent (snd (Windsurf_ExecuteStream demo_metaStringValue (demo_exec_world demo_stream_response)
      Map.empty 0 (Some demo_auth) demo_request demo_options))
   = [\<lparr>Method = ''POST'', URL = ''https://proxy.codeium.com/v1/chat/completions'',
       Header = [(''X-Request-Id'', ''req-1''), (''User-Agent'', ''Windsurf-CLI/1.0''),
                 (''Accept'', ''application/json''), (''Authorization'', ''Bearer at''),
                 (''Content-Type'', ''application/json'')],
       RequestBody = JObj [(''model'', JStr ''gpt-4''), (''messages'', JArr []),
                           (''stream'', JBool True),
                           (''stream_options'', JObj [(''include_usage'', JBool True)])]\<rparr>]"
  by (simp add: Windsurf_ExecuteStream_def Windsurf_ensureAPIToken_def Let_def SetBytes_def
      Windsurf_normalizeModel_def Windsurf_applyHeaders_def Header_Set_def windsurfBaseURL_def
      windsurfChatPath_def windsurfUserAgent_def demo_defs exec_demo_defs const_defs)

lemma demo_Continue_stream_sent:
  "sent (snd (Continue_ExecuteStream (demo_continue_world 0) (demo_exec_world demo_stream_response)
      (\<lambda>i. False) Map.empty 0 (Some demo_auth) demo_request demo_options))
   = [\<lparr>Method = ''POST'', URL = ''https://api.continue.dev/v1/chat/completions'',
       Header = [(''Accept'', ''application/json''), (''Content-Type'', ''application/json''),
                 (''Authorization'', ''Bearer fresh'')],
       RequestBody = JObj [(''model'', JStr ''gpt-4''), (''messages'', JArr []),
                           (''stream'', JBool True)]\<rparr>]"
  by (simp add: Continue_ExecuteStream_def Continue_ensureAPIToken_def GetContinueAPIToken_def
      Let_def SetBytes_def Continue_normalizeModel_def Continue_applyHeaders_def Header_Set_def
      continueBaseURL_def continueChatPath_def demo_defs exec_demo_defs const_defs)

text \<open>
  C4 at a streaming call for the model \<open>gpt-4\<close>. The one request that \<open>ExecuteStream\<close> of
  Continue hands to the HTTP client has \<open>stream\<close> set to true and no
  \<open>stream_options.include_usage\<close>; the request of Windsurf for the same call has both.
\<close>

theorem Continue_stream_usage_flag_missing:
  "map (\<lambda>r. (jget [''stream''] (RequestBody r), jget [''stream_options'', ''include_usage''] (RequestBody r)))
     (sent (snd (Continue_ExecuteStream (demo_continue_world 0) (demo_exec_world demo_stream_response)
        (\<lambda>i. False) Map.empty 0 (Some demo_auth) demo_request demo_options)))
   = [(Some (JBool True), None)]
   \<and> map (\<lambda>r. (jget [''stream''] (RequestBody r), jget [''stream_options'', ''include_usage''] (RequestBody r)))
     (sent (snd (Windsurf_ExecuteStream demo_metaStringValue (demo_exec_world demo_stream_response)
        Map.empty 0 (Some demo_auth) demo_request demo_options)))
   = [(Some (JBool True), Some (JBool True))]"
  by (simp add: demo_Windsurf_stream_sent demo_Continue_stream_sent)

text \<open>
  The streaming loops and an error of the scanner. Continue never puts an error chunk
  on the channel and never reports a failure to the usage reporter; Windsurf and Bolt
  end the stream with the error chunk and report the failure.
\<close>

lemma Continue_streamLines_no_error:
  "list_all (\<lambda>c. ChunkErr c = Nil)
     (fst (Continue_streamLines w ctxDone from to model originalRequest body requestID i ls param))"
proof (induction ls arbitrary: i param)
  case Nil
  show ?case by simp
next
  case (Cons line rest)
  obtain parts param' where t:
    "TranslateStream w to from model originalRequest body line param = (parts, param')"
    by (cases "TranslateStream w to from model originalRequest body line param")
  obtain cs cancelled where r:
    "Continue_streamLines w ctxDone from to model originalRequest body requestID (Suc i) rest param'
       = (cs, cancelled)"
    by (cases "Continue_streamLines w ctxDone from to model originalRequest body requestID (Suc i)
                 rest param'")
  from Cons.IH[of "Suc i" param'] have "list_all (\<lambda>c. ChunkErr c = Nil) cs"
    by (simp add: r)
  then show ?case
    by (auto simp: t r list_all_iff)
qed

lemma Continue_stream_never_fails:
  "list_all (\<lambda>c. ChunkErr c = Nil)
     (chunks (Continue_streamResponse w ctxDone httpResp from to model originalRequest body))
   \<and> PublishFailure \<notin> set (stream_usage
        (Continue_streamResponse w ctxDone httpResp from to model originalRequest body))"
  using Continue_streamLines_no_error[of w ctxDone "from" to model originalRequest body "NewUUID w" 0
    "Lines httpResp" "NilParam w"]
  by (auto simp: Continue_streamResponse_def split: prod.splits)

lemma Windsurf_stream_scanner_error:
  "ScanErr httpResp \<noteq> Nil \<Longrightarrow>
     last (chunks (Windsurf_streamResponse w httpResp from to model originalRequest body))
       = \<lparr>ChunkPayload = [], ChunkErr = ScanErr httpResp, ChunkData = [], ChunkRequestID = []\<rparr>
     \<and> last (stream_usage (Windsurf_streamResponse w httpResp from to model originalRequest body))
       = PublishFailure"
  by (simp add: Windsurf_streamResponse_def split: prod.splits)

lemma Bolt_stream_scanner_error:
  "ScanErr decodedBody \<noteq> Nil \<Longrightarrow>
     last (chunks (Bolt_streamResponse w decodedBody from to model originalRequest body))
       = \<lparr>ChunkPayload = [], ChunkErr = ScanErr decodedBody, ChunkData = [], ChunkRequestID = []\<rparr>
     \<and> last (stream_usage (Bolt_streamResponse w decodedBody from to model originalRequest body))
       = PublishFailure"
  by (simp add: Bolt_streamResponse_def split: prod.splits)

text \<open>
  C5 at a stream of one line after which the scanner fails. The stream of Continue is
  the chunk of that line and nothing else, with \<open>ensurePublished\<close> as the only call on
  the reporter; the stream of Windsurf for the same response ends with the error chunk
  and \<open>publishFailure\<close>.
\<close>

theorem Continue_scanner_error_swallowed:
  "ScanErr demo_broken_stream_response = Plain ''bufio.Scanner: token too long''
   \<and> result (snd (Continue_ExecuteStream (demo_continue_world 0)
        (demo_exec_world demo_broken_stream_response) (\<lambda>i. False) Map.empty 0 (Some demo_auth)
        demo_request demo_options))
     = Inr \<lparr>chunks = [\<lparr>ChunkPayload = [], ChunkErr = Nil, ChunkData = ''data: {chunk-1}'',
                         ChunkRequestID = ''req-1''\<rparr>],
            stream_usage = [EnsurePublished]\<rparr>
   \<and> result (snd (Windsurf_ExecuteStream demo_metaStringValue
        (demo_exec_world demo_broken_stream_response) Map.empty 0 (Some demo_auth)
        demo_request demo_options))
     = Inr \<lparr>chunks = [\<lparr>ChunkPayload = ''data: {chunk-1}'', ChunkErr = Nil, ChunkData = [],
                         ChunkRequestID = []\<rparr>,
                       \<lparr>ChunkPayload = [], ChunkErr = Plain ''bufio.Scanner: token too long'',
                         ChunkData = [], ChunkRequestID = []\<rparr>],
            stream_usage = [PublishFailure]\<rparr>"
  by (simp add: Continue_ExecuteStream_def Continue_ensureAPIToken_def GetContinueAPIToken_def
      Continue_streamResponse_def Windsurf_ExecuteStream_def Windsurf_ensureAPIToken_def
      Windsurf_streamResponse_def dataTag_def
      Let_def SetBytes_def Continue_normalizeModel_def Continue_applyHeaders_def Header_Set_def
      Windsurf_normalizeModel_def Windsurf_applyHeaders_def
      demo_defs exec_demo_defs const_defs)

text \<open>
  C6, as the code has it. Whenever an executor has handed a request to the HTTP client
  and the response to it has a status outside 2xx, \<open>Execute\<close> and \<open>ExecuteStream\<close> return
  an error and no payload or stream. For Continue, Bolt and \<open>Execute\<close> of Windsurf the
  error is the \<open>statusErr\<close> with that status and the bytes read from the body. For
  \<open>ExecuteStream\<close> of Windsurf it is that \<open>statusErr\<close> when the body was read to its end,
  and the read error otherwise.
\<close>

theorem upstream_status_errors:
  "(sent (snd (Continue_Execute cw w cache now auth req opts)) = [r] \<and> Do w r = Inr httpResp
      \<and> \<not> isHTTPSuccess (StatusCode httpResp) \<longrightarrow>
      result (snd (Continue_Execute cw w cache now auth req opts))
        = Inl (StatusErr (StatusCode httpResp) (Body httpResp)))
   \<and> (sent (snd (Continue_ExecuteStream cw w ctxDone cache now auth req opts)) = [r]
      \<and> Do w r = Inr httpResp \<and> \<not> isHTTPSuccess (StatusCode httpResp) \<longrightarrow>
      result (snd (Continue_ExecuteStream cw w ctxDone cache now auth req opts))
        = Inl (StatusErr (StatusCode httpResp) (Body httpResp)))
   \<and> (sent (snd (Windsurf_Execute msv w wcache now auth req opts)) = [r] \<and> Do w r = Inr httpResp
      \<and> \<not> isHTTPSuccess (StatusCode httpResp) \<longrightarrow>
      result (snd (Windsurf_Execute msv w wcache now auth req opts))
        = Inl (StatusErr (StatusCode httpResp) (Body httpResp)))
   \<and> (sent (snd (Windsurf_ExecuteStream msv w wcache now auth req opts)) = [r]
      \<and> Do w r = Inr httpResp \<and> \<not> isHTTPSuccess (StatusCode httpResp) \<longrightarrow>
      result (snd (Windsurf_ExecuteStream msv w wcache now auth req opts))
        = (if ReadErr httpResp \<noteq> Nil then Inl (ReadErr httpResp)
           else Inl (StatusErr (StatusCode httpResp) (Body httpResp))))
   \<and> (sent (Bolt_Execute bw auth req opts) = [r] \<and> Do bw r = Inr httpResp
      \<and> \<not> isHTTPSuccess (StatusCode httpResp) \<longrightarrow>
      result (Bolt_Execute bw auth req opts)
        = Inl (StatusErr (StatusCode httpResp) (Body httpResp)))
   \<and> (sent (Bolt_ExecuteStream bw auth req opts) = [r] \<and> Do bw r = Inr httpResp
      \<and> \<not> isHTTPSuccess (StatusCode httpResp) \<longrightarrow>
      result (Bolt_ExecuteStream bw auth req opts)
        = Inl (StatusErr (StatusCode httpResp) (Body httpResp)))"
proof (intro conjI impI)
  assume h: "sent (snd (Continue_Execute cw w cache now auth req opts)) = [r] \<and> Do w r = Inr httpResp
      \<and> \<not> isHTTPSuccess (StatusCode httpResp)"
  obtain cache' tr where t: "Continue_ensureAPIToken cw cache now auth = (cache', tr)"
    by (cases "Continue_ensureAPIToken cw cache now auth")
  show "result (snd (Continue_Execute cw w cache now auth req opts))
        = Inl (StatusErr (StatusCode httpResp) (Body httpResp))"
  proof (cases tr)
    case (Inl e)
    with h t show ?thesis by (simp add: Continue_Execute_def)
  next
    case (Inr tok)
    show ?thesis
      using h unfolding Continue_Execute_def t Inr Let_def
      by (auto split: if_splits sum.splits)
  qed
next
  assume h: "sent (snd (Continue_ExecuteStream cw w ctxDone cache now auth req opts)) = [r] \<and> Do w r = Inr httpResp
      \<and> \<not> isHTTPSuccess (StatusCode httpResp)"
  obtain cache' tr where t: "Continue_ensureAPIToken cw cache now auth = (cache', tr)"
    by (cases "Continue_ensureAPIToken cw cache now auth")
  show "result (snd (Continue_ExecuteStream cw w ctxDone cache now auth req opts))
        = Inl (StatusErr (StatusCode httpResp) (Body httpResp))"
  proof (cases tr)
    case (Inl e)
    with h t show ?thesis by (simp add: Continue_ExecuteStream_def)
  next
    case (Inr tok)
    show ?thesis
      using h unfolding Continue_ExecuteStream_def t Inr Let_def
      by (auto split: if_splits sum.splits)
  qed
next
  assume h: "sent (snd (Windsurf_Execute msv w wcache now auth req opts)) = [r] \<and> Do w r = Inr httpResp
      \<and> \<not> isHTTPSuccess (StatusCode httpResp)"
  obtain cache' tr where t: "Windsurf_ensureAPIToken msv wcache now auth = (cache', tr)"
    by (cases "Windsurf_ensureAPIToken msv wcache now auth")
  show "result (snd (Windsurf_Execute msv w wcache now auth req opts))
        = Inl (StatusErr (StatusCode httpResp) (Body httpResp))"
  proof (cases tr)
    case (Inl e)
    with h t show ?thesis by (simp add: Windsurf_Execute_def)
  next
    case (Inr tok)
    show ?thesis
      using h unfolding Windsurf_Execute_def t Inr Let_def
      by (auto split: if_splits sum.splits)
  qed
next
  assume h: "sent (snd (Windsurf_ExecuteStream msv w wcache now auth req opts)) = [r] \<and> Do w r = Inr httpResp
      \<and> \<not> isHTTPSuccess (StatusCode httpResp)"
  obtain cache' tr where t: "Windsurf_ensureAPIToken msv wcache now auth = (cache', tr)"
    by (cases "Windsurf_ensureAPIToken msv wcache now auth")
  show "result (snd (Windsurf_ExecuteStream msv w wcache now auth req opts))
        = (if ReadErr httpResp \<noteq> Nil then Inl (ReadErr httpResp)
           else Inl (StatusErr (StatusCode httpResp) (Body httpResp)))"
  proof (cases tr)
    case (Inl e)
    with h t show ?thesis by (simp add: Windsurf_ExecuteStream_def)
  next
    case (Inr tok)
    show ?thesis
      using h unfolding Windsurf_ExecuteStream_def t Inr Let_def
      by (auto split: if_splits sum.splits)
  qed
next
  assume h: "sent (Bolt_Execute bw auth req opts) = [r] \<and> Do bw r = Inr httpResp
      \<and> \<not> isHTTPSuccess (StatusCode httpResp)"
  show "result (Bolt_Execute bw auth req opts)
        = Inl (StatusErr (StatusCode httpResp) (Body httpResp))"
    using h unfolding Bolt_Execute_def Let_def
    by (auto simp: isHTTPSuccess_def split: if_splits sum.splits)
next
  assume h: "sent (Bolt_ExecuteStream bw auth req opts) = [r] \<and> Do bw r = Inr httpResp
      \<and> \<not> isHTTPSuccess (StatusCode httpResp)"
  show "result (Bolt_ExecuteStream bw auth req opts)
        = Inl (StatusErr (StatusCode httpResp) (Body httpResp))"
    using h unfolding Bolt_ExecuteStream_def Let_def
    by (auto simp: isHTTPSuccess_def split: if_splits sum.splits)
qed

lemma demo_Do: "Do (demo_exec_world resp) r = Inr resp" "Do (demo_bolt_world resp) r = Inr resp"
  by (simp_all add: demo_exec_world_def demo_bolt_world_def)

text \<open>
  The six calls on a 429 response: each returns the \<open>statusErr\<close> with code 429 and the
  body.
\<close>

theorem upstream_status_errors_witness:
  "result (snd (Continue_Execute (demo_continue_world 0) (demo_exec_world demo_error_response)
        Map.empty 0 (Some demo_auth) demo_request demo_options))
     = Inl (StatusErr 429 ''{error:quota exceeded}'')
   \<and> result (snd (Continue_ExecuteStream (demo_continue_world 0)
        (demo_exec_world demo_error_response) (\<lambda>i. False) Map.empty 0 (Some demo_auth)
        demo_request demo_options))
     = Inl (StatusErr 429 ''{error:quota exceeded}'')
   \<and> result (snd (Windsurf_Execute demo_metaStringValue (demo_exec_world demo_error_response)
        Map.empty 0 (Some demo_auth) demo_request demo_options))
     = Inl (StatusErr 429 ''{error:quota exceeded}'')
   \<and> result (snd (Windsurf_ExecuteStream demo_metaStringValue (demo_exec_world demo_error_response)
        Map.empty 0 (Some demo_auth) demo_request demo_options))
     = Inl (StatusErr 429 ''{error:quota exceeded}'')
   \<and> result (Bolt_Execute (demo_bolt_world demo_error_response) (Some demo_auth) demo_request
        demo_options)
     = Inl (StatusErr 429 ''{error:quota exceeded}'')
   \<and> result (Bolt_ExecuteStream (demo_bolt_world demo_error_response) (Some demo_auth) demo_request
        demo_options)
     = Inl (StatusErr 429 ''{error:quota exceeded}'')"
proof -
  have n: "\<not> isHTTPSuccess (StatusCode demo_error_response)"
    "StatusCode demo_error_response = 429" "Body demo_error_response = ''{error:quota exceeded}''"
    by (simp_all add: demo_error_response_def isHTTPSuccess_def)
  have s1: "\<exists>r. sent (snd (Continue_Execute (demo_continue_world 0)
        (demo_exec_world demo_error_response) Map.empty 0 (Some demo_auth) demo_request
        demo_options)) = [r]"
    by (simp add: Continue_Execute_def Continue_ensureAPIToken_def GetContinueAPIToken_def Let_def
        demo_defs exec_demo_defs const_defs)
  have s2: "\<exists>r. sent (snd (Continue_ExecuteStream (demo_continue_world 0)
        (demo_exec_world demo_error_response) (\<lambda>i. False) Map.empty 0 (Some demo_auth)
        demo_request demo_options)) = [r]"
    by (simp add: Continue_ExecuteStream_def Continue_ensureAPIToken_def GetContinueAPIToken_def
        Let_def demo_defs exec_demo_defs const_defs)
  have s3: "\<exists>r. sent (snd (Windsurf_Execute demo_metaStringValue
        (demo_exec_world demo_error_response) Map.empty 0 (Some demo_auth) demo_request
        demo_options)) = [r]"
    by (simp add: Windsurf_Execute_def Windsurf_ensureAPIToken_def Let_def
        demo_defs exec_demo_defs const_defs)
  have s4: "\<exists>r. sent (snd (Windsurf_ExecuteStream demo_metaStringValue
        (demo_exec_world demo_error_response) Map.empty 0 (Some demo_auth) demo_request
        demo_options)) = [r]"
    by (simp add: Windsurf_ExecuteStream_def Windsurf_ensureAPIToken_def Let_def
        demo_defs exec_demo_defs const_defs)
  have s5: "\<exists>r. sent (Bolt_Execute (demo_bolt_world demo_error_response) (Some demo_auth)
        demo_request demo_options) = [r]"
    by (simp add: Bolt_Execute_def Let_def exec_demo_defs)
  have s6: "\<exists>r. sent (Bolt_ExecuteStream (demo_bolt_world demo_error_response) (Some demo_auth)
        demo_request demo_options) = [r]"
    by (simp add: Bolt_ExecuteStream_def Let_def exec_demo_defs)
  note t = upstream_status_errors[where cw="demo_continue_world 0"
      and w="demo_exec_world demo_error_response" and bw="demo_bolt_world demo_error_response"
      and cache=Map.empty and wcache=Map.empty and now=0 and auth="Some demo_auth"
      and req=demo_request and opts=demo_options and msv=demo_metaStringValue
      and ctxDone="\<lambda>i. False" and httpResp=demo_error_response]
  from s1 obtain r1 where r1: "sent (snd (Continue_Execute (demo_continue_world 0)
        (demo_exec_world demo_error_response) Map.empty 0 (Some demo_auth) demo_request
        demo_options)) = [r1]" by blast
  from s2 obtain r2 where r2: "sent (snd (Continue_ExecuteStream (demo_continue_world 0)
        (demo_exec_world demo_error_response) (\<lambda>i. False) Map.empty 0 (Some demo_auth)
        demo_request demo_options)) = [r2]" by blast
  from s3 obtain r3 where r3: "sent (snd (Windsurf_Execute demo_metaStringValue
        (demo_exec_world demo_error_response) Map.empty 0 (Some demo_auth) demo_request
        demo_options)) = [r3]" by blast
  from s4 obtain r4 where r4: "sent (snd (Windsurf_ExecuteStream demo_metaStringValue
        (demo_exec_world demo_error_response) Map.empty 0 (Some demo_auth) demo_request
        demo_options)) = [r4]" by blast
  from s5 obtain r5 where r5: "sent (Bolt_Execute (demo_bolt_world demo_error_response)
        (Some demo_auth) demo_request demo_options) = [r5]" by blast
  from s6 obtain r6 where r6: "sent (Bolt_ExecuteStream (demo_bolt_world demo_error_response)
        (Some demo_auth) demo_request demo_options) = [r6]" by blast
  have e: "ReadErr demo_error_response = Nil"
    by (simp add: demo_error_response_def)
  show ?thesis
    using t[where r=r1] t[where r=r2] t[where r=r3] t[where r=r4] t[where r=r5] t[where r=r6]
      r1 r2 r3 r4 r5 r6 n e
    by (simp add: demo_Do)
qed

text \<open>
  C6 as worded fails for \<open>ExecuteStream\<close> of Windsurf on a 500 response whose body
  breaks off while it is read: the call returns the read error, not a \<open>statusErr\<close>.
\<close>

theorem upstream_status_errors_counterexample:
  "StatusCode demo_broken_error_response = 500
   \<and> Body demo_broken_error_response = ''partial''
   \<and> result (snd (Windsurf_ExecuteStream demo_metaStringValue
        (demo_exec_world demo_broken_error_response) Map.empty 0 (Some demo_auth) demo_request
        demo_options))
     = Inl (Plain ''unexpected EOF'')"
  by (simp add: Windsurf_ExecuteStream_def Windsurf_ensureAPIToken_def Let_def
      demo_defs exec_demo_defs const_defs)

end
